theory Spec2Isabelle
  imports Main
begin

section \<open>Python strings\<close>

text \<open>
  A Python \<open>str\<close> is modelled as a HOL \<open>string\<close>: a list of characters with code points
  0 to 255. The character classes below are those of CPython for these code points
  (\<open>str.isspace\<close>, the \<open>\w\<close> and \<open>\s\<close> of \<open>re\<close> on \<open>str\<close> patterns, \<open>str.lower\<close>).
\<close>

definition ascii_lowercase :: string where
  "ascii_lowercase = ''abcdefghijklmnopqrstuvwxyz''"

definition ascii_uppercase :: string where
  "ascii_uppercase = ''ABCDEFGHIJKLMNOPQRSTUVWXYZ''"

definition ascii_digits :: string where
  "ascii_digits = ''0123456789''"

definition isspace :: "char \<Rightarrow> bool" where
  \<comment> \<open>tab, LF, VT, FF, CR, the four separators 0x1C to 0x1F, space, NEL, NBSP\<close>
  "isspace c = (c \<in> set [CHR 0x09, CHR 0x0A, CHR 0x0B, CHR 0x0C, CHR 0x0D,
                          CHR 0x1C, CHR 0x1D, CHR 0x1E, CHR 0x1F, CHR 0x20,
                          CHR 0x85, CHR 0xA0])"

definition isdigit :: "char \<Rightarrow> bool" where
  "isdigit c = (c \<in> set ascii_digits)"

definition latin1_alnum :: "char \<Rightarrow> bool" where
  \<comment> \<open>the alphanumeric code points of 0x80 to 0xFF\<close>
  "latin1_alnum c =
     (let n = (of_char c :: nat)
      in n = 0xAA \<or> n = 0xB2 \<or> n = 0xB3 \<or> n = 0xB5 \<or> n = 0xB9 \<or> n = 0xBA
         \<or> n = 0xBC \<or> n = 0xBD \<or> n = 0xBE
         \<or> (0xC0 \<le> n \<and> n \<le> 0xFF \<and> n \<noteq> 0xD7 \<and> n \<noteq> 0xF7))"

definition is_word :: "char \<Rightarrow> bool" where
  \<comment> \<open>\<open>\w\<close> with \<open>re.UNICODE\<close>: alphanumeric or underscore\<close>
  "is_word c = (c \<in> set (ascii_lowercase @ ascii_uppercase @ ascii_digits @ ''_'')
                \<or> latin1_alnum c)"

definition is_ascii_word :: "char \<Rightarrow> bool" where
  \<comment> \<open>the class \<open>[a-zA-Z0-9_]\<close>\<close>
  "is_ascii_word c = (c \<in> set (ascii_lowercase @ ascii_uppercase @ ascii_digits @ ''_''))"

definition lower_char :: "char \<Rightarrow> char" where
  "lower_char c =
     (case map_of (zip ascii_uppercase ascii_lowercase) c of
        Some l \<Rightarrow> l
      | None \<Rightarrow>
          (let n = (of_char c :: nat)
           in if 0xC0 \<le> n \<and> n \<le> 0xDE \<and> n \<noteq> 0xD7 then char_of (n + 32) else c))"

definition lower :: "string \<Rightarrow> string" where
  "lower s = map lower_char s"

definition lstrip_by :: "(char \<Rightarrow> bool) \<Rightarrow> string \<Rightarrow> string" where
  "lstrip_by p s = dropWhile p s"

definition rstrip_by :: "(char \<Rightarrow> bool) \<Rightarrow> string \<Rightarrow> string" where
  "rstrip_by p s = rev (dropWhile p (rev s))"

definition strip :: "string \<Rightarrow> string" where
  \<comment> \<open>\<open>s.strip()\<close>\<close>
  "strip s = rstrip_by isspace (lstrip_by isspace s)"

definition strip_char :: "char \<Rightarrow> string \<Rightarrow> string" where
  \<comment> \<open>\<open>s.strip(c)\<close> for a one-character argument\<close>
  "strip_char c s = rstrip_by (\<lambda>x. x = c) (lstrip_by (\<lambda>x. x = c) s)"

fun split_on :: "char \<Rightarrow> string \<Rightarrow> string list" where
  \<comment> \<open>\<open>s.split(sep)\<close> for a one-character separator: empty pieces are kept\<close>
  "split_on sep [] = [[]]"
| "split_on sep (c # cs) =
     (if c = sep then [] # split_on sep cs
      else (case split_on sep cs of p # ps \<Rightarrow> (c # p) # ps | [] \<Rightarrow> [[c]]))"

fun contains :: "string \<Rightarrow> string \<Rightarrow> bool" where
  \<comment> \<open>\<open>sub in s\<close>\<close>
  "contains sub [] = (sub = [])"
| "contains sub (c # cs) = (take (length sub) (c # cs) = sub \<or> contains sub cs)"

definition startswith :: "string \<Rightarrow> string \<Rightarrow> bool" where
  "startswith s p = (take (length p) s = p)"

definition endswith :: "string \<Rightarrow> string \<Rightarrow> bool" where
  "endswith s p = (length p \<le> length s \<and> drop (length s - length p) s = p)"

fun replace :: "string \<Rightarrow> string \<Rightarrow> string \<Rightarrow> string" where
  \<comment> \<open>\<open>s.replace(old, new)\<close> for a non-empty \<open>old\<close>: every occurrence, left to right\<close>
  "replace old new [] = []"
| "replace old new (c # cs) =
     (if old \<noteq> [] \<and> take (length old) (c # cs) = old
      then new @ replace old new (drop (length old) (c # cs))
      else c # replace old new cs)"

definition digit_char :: "nat \<Rightarrow> char" where
  "digit_char d = ascii_digits ! d"

fun str_nat :: "nat \<Rightarrow> string" where
  "str_nat n = (if n < 10 then [digit_char n] else str_nat (n div 10) @ [digit_char (n mod 10)])"

declare str_nat.simps [simp del]

definition str_int :: "int \<Rightarrow> string" where
  \<comment> \<open>\<open>str(n)\<close>, also the text of \<open>{n}\<close> in an f-string\<close>
  "str_int i = (if i < 0 then CHR ''-'' # str_nat (nat (- i)) else str_nat (nat i))"

subsection \<open>The builtin \<open>int\<close> on a string\<close>

definition digit_val :: "char \<Rightarrow> nat" where
  "digit_val c = (of_char c :: nat) - 48"

definition digits_value :: "string \<Rightarrow> nat" where
  "digits_value ds = foldl (\<lambda>a c. 10 * a + digit_val c) 0 ds"

definition digits_ok :: "string \<Rightarrow> bool" where
  \<comment> \<open>groups of decimal digits, joined by single underscores\<close>
  "digits_ok body = list_all (\<lambda>g. g \<noteq> [] \<and> list_all isdigit g) (split_on (CHR ''_'') body)"

definition int_space :: "char \<Rightarrow> bool" where
  \<comment> \<open>the whitespace \<open>int\<close> skips around the digits: tab, LF, VT, FF, CR and space, and
      the spaces beyond ASCII (NEL, NBSP), which it first turns into a space; unlike
      \<open>str.strip\<close>, not the separators 0x1C to 0x1F\<close>
  "int_space c = (c \<in> set [CHR 0x09, CHR 0x0A, CHR 0x0B, CHR 0x0C, CHR 0x0D, CHR 0x20,
                            CHR 0x85, CHR 0xA0])"

definition py_int :: "string \<Rightarrow> int option" where
  \<comment> \<open>\<open>int(s)\<close>: surrounding whitespace, one optional sign, digits; \<open>None\<close> is ValueError.
      The interpreter's limit on the number of digits is not modelled.\<close>
  "py_int s =
     (case rstrip_by int_space (lstrip_by int_space s) of
        [] \<Rightarrow> None
      | c # r \<Rightarrow>
          (let body = (if c = CHR ''-'' \<or> c = CHR ''+'' then r else c # r)
           in if digits_ok body
              then Some ((if c = CHR ''-'' then - 1 else 1)
                         * int (digits_value (filter isdigit body)))
              else None))"

definition int_of_list :: "string list \<Rightarrow> int option" where
  \<comment> \<open>\<open>int(parts)\<close> on a list object: always TypeError\<close>
  "int_of_list parts = None"

definition float_of_list :: "string list \<Rightarrow> int option" where
  \<comment> \<open>\<open>int(float(parts))\<close> on a list object: \<open>float\<close> raises TypeError\<close>
  "float_of_list parts = None"

section \<open>The extractor and its environment\<close>

record extractor =
  output_dir :: string
  min_duration :: int
  max_duration :: int
  quality :: string

datatype py_exception =
    TimeoutExpired string  \<comment> \<open>\<open>subprocess.TimeoutExpired\<close>, with its \<open>str(e)\<close>\<close>
  | OtherException string  \<comment> \<open>any other \<open>Exception\<close>, with its \<open>str(e)\<close>\<close>

datatype run_result =
    Completed int string   \<comment> \<open>\<open>returncode\<close> and \<open>stdout\<close> of the finished process\<close>
  | Raised py_exception

datatype json =
    JNull | JBool bool | JInt int
  | JFloat int int  \<comment> \<open>a number with a fraction or an exponent: mantissa and exponent\<close>
  | JStr string | JArr "json list"
  | JObj "(string \<times> json) list"  \<comment> \<open>the items of a dictionary, each key once\<close>

datatype pyval = PNone | PNaN | PBool bool | PInt int | PStr string

datatype interp_error =
    NotSubscriptable json   \<comment> \<open>TypeError of \<open>v[:30]\<close>\<close>
  | NoAttribute json string \<comment> \<open>AttributeError of \<open>v.name\<close>\<close>
  | NotIterable json        \<comment> \<open>TypeError of \<open>'...' in v\<close>\<close>
  | NoAttributeOf pyval string \<comment> \<open>AttributeError of \<open>v.name\<close>, on a value of a record\<close>
  | RecursionLimit          \<comment> \<open>RecursionError\<close>

datatype call =
    Run "string list" int  \<comment> \<open>\<open>subprocess.run(cmd, timeout=t)\<close>\<close>
  | Sleep int

text \<open>
  What the program cannot decide is a parameter: the outcome of the k-th external
  process started, the files on disk after k processes have run, the k-th reading of
  the clock (\<open>int(time.time())\<close>), the interpreter's string hash, \<open>json.loads\<close>,
  the text \<open>str(e)\<close> of the errors the interpreter itself raises, and the number of
  nested VOD resolutions its recursion limit allows.
\<close>

record env =
  run_result_at :: "nat \<Rightarrow> run_result"
  files_at :: "nat \<Rightarrow> string \<Rightarrow> nat option"
  time_at :: "nat \<Rightarrow> int"
  py_hash :: "string \<Rightarrow> int"
  json_loads :: "string \<Rightarrow> py_exception + json"
  interp_text :: "interp_error \<Rightarrow> string"
  recursion_limit :: nat

record state =
  n_run :: nat
  n_time :: nat
  calls :: "call list"

definition subprocess_run :: "env \<Rightarrow> string list \<Rightarrow> int \<Rightarrow> state \<Rightarrow> run_result \<times> state" where
  "subprocess_run e cmd t st =
     (run_result_at e (n_run st),
      st\<lparr>n_run := Suc (n_run st), calls := calls st @ [Run cmd t]\<rparr>)"

definition path_exists :: "env \<Rightarrow> state \<Rightarrow> string \<Rightarrow> bool" where
  \<comment> \<open>\<open>os.path.exists(path)\<close>\<close>
  "path_exists e st path = (files_at e (n_run st) path \<noteq> None)"

definition path_getsize :: "env \<Rightarrow> state \<Rightarrow> string \<Rightarrow> nat" where
  \<comment> \<open>\<open>os.path.getsize(path)\<close>, called only where the file exists\<close>
  "path_getsize e st path = (case files_at e (n_run st) path of Some n \<Rightarrow> n | None \<Rightarrow> 0)"

definition time_time :: "env \<Rightarrow> state \<Rightarrow> int \<times> state" where
  \<comment> \<open>\<open>int(time.time())\<close>\<close>
  "time_time e st = (time_at e (n_time st), st\<lparr>n_time := Suc (n_time st)\<rparr>)"

definition time_sleep :: "int \<Rightarrow> state \<Rightarrow> state" where
  "time_sleep s st = st\<lparr>calls := calls st @ [Sleep s]\<rparr>"

subsection \<open>Values of a record\<close>

definition pyval_truthy :: "pyval \<Rightarrow> bool" where
  "pyval_truthy v =
     (case v of PNone \<Rightarrow> False | PNaN \<Rightarrow> True | PBool b \<Rightarrow> b | PInt i \<Rightarrow> i \<noteq> 0
      | PStr s \<Rightarrow> s \<noteq> [])"

definition py_str :: "pyval \<Rightarrow> string" where
  \<comment> \<open>\<open>str(value)\<close>\<close>
  "py_str v =
     (case v of PNone \<Rightarrow> ''None'' | PNaN \<Rightarrow> ''nan''
      | PBool b \<Rightarrow> (if b then ''True'' else ''False'') | PInt i \<Rightarrow> str_int i
      | PStr s \<Rightarrow> s)"

section \<open>Duration resolution\<close>

definition parse_duration_body :: "string \<Rightarrow> int option" where
  \<comment> \<open>the \<open>try\<close> block of \<open>_parse_duration_string\<close>; \<open>None\<close>: an exception was raised\<close>
  "parse_duration_body duration_str =
     (let parts = split_on (CHR '':'') duration_str
      in if length parts = 3 then
           (case py_int (parts ! 0) of None \<Rightarrow> None | Some h \<Rightarrow>
            (case py_int (parts ! 1) of None \<Rightarrow> None | Some m \<Rightarrow>
             (case py_int (parts ! 2) of None \<Rightarrow> None | Some s \<Rightarrow>
                Some (h * 3600 + m * 60 + s))))
         else if length parts = 2 then
           (case int_of_list parts of None \<Rightarrow> None | Some m \<Rightarrow>
            (case py_int (parts ! 1) of None \<Rightarrow> None | Some s \<Rightarrow>
               Some (m * 60 + s)))
         else float_of_list parts)"

definition parse_duration_string :: "string \<Rightarrow> int" where
  \<comment> \<open>\<open>_parse_duration_string\<close>: the bare \<open>except\<close> returns 0\<close>
  "parse_duration_string duration_str =
     (case parse_duration_body duration_str of Some v \<Rightarrow> v | None \<Rightarrow> 0)"

definition probe_cmd :: "string \<Rightarrow> string list" where
  "probe_cmd url = [''yt-dlp'', ''--get-duration'', ''--quiet'', ''--no-warnings'', url]"

definition clamp_duration :: "extractor \<Rightarrow> int \<Rightarrow> int" where
  \<comment> \<open>\<open>max(self.min_duration, min(total_seconds, self.max_duration))\<close>\<close>
  "clamp_duration ex total_seconds =
     max (min_duration ex) (min total_seconds (max_duration ex))"

definition get_optimal_duration ::
  "extractor \<Rightarrow> env \<Rightarrow> string \<Rightarrow> pyval \<Rightarrow> state \<Rightarrow> int \<times> state" where
  \<comment> \<open>\<open>_get_optimal_duration\<close>; every exception of the \<open>try\<close> block ends in \<open>max_duration\<close>\<close>
  "get_optimal_duration ex e url platform st =
     (case subprocess_run e (probe_cmd url) 30 st of
        (Raised exn, st') \<Rightarrow> (max_duration ex, st')
      | (Completed returncode stdout, st') \<Rightarrow>
          if returncode = 0 \<and> strip stdout \<noteq> [] then
            (let total_seconds = parse_duration_string (strip stdout)
             in if total_seconds > 0
                then (clamp_duration ex total_seconds, st')
                else (max_duration ex, st'))
          else (max_duration ex, st'))"

section \<open>Extraction through the quality ladder\<close>

record extraction_result =
  success :: bool
  file_path :: "string option"
  status :: string
  actual_duration :: "int option"
  file_size :: "nat option"

text \<open>
  The result dictionaries of the source carry the keys \<open>file_path\<close>, \<open>actual_duration\<close>
  and \<open>file_size\<close> on success only; a key that is absent is \<open>None\<close> here.
\<close>

definition failure_result :: "string \<Rightarrow> extraction_result" where
  "failure_result s =
     \<lparr>success = False, file_path = None, status = s, actual_duration = None,
      file_size = None\<rparr>"

definition timeout_multiplier :: "int \<Rightarrow> int" where
  "timeout_multiplier duration = max 1 (duration div 300)"

definition youtube_quality_options :: "extractor \<Rightarrow> int \<Rightarrow> (string \<times> int) list" where
  "youtube_quality_options ex duration =
     [(quality ex, 300 * timeout_multiplier duration),
      (''128'', 240 * timeout_multiplier duration),
      (''96'', 180 * timeout_multiplier duration),
      (''64'', 120 * timeout_multiplier duration)]"

definition twitch_quality_options :: "extractor \<Rightarrow> int \<Rightarrow> (string \<times> int) list" where
  "twitch_quality_options ex duration =
     [(quality ex, 400 * timeout_multiplier duration),
      (''128'', 350 * timeout_multiplier duration),
      (''96'', 300 * timeout_multiplier duration),
      (''64'', 250 * timeout_multiplier duration)]"

definition youtube_cmd :: "string \<Rightarrow> string \<Rightarrow> int \<Rightarrow> string \<Rightarrow> string list" where
  "youtube_cmd url output_path duration q =
     [''yt-dlp'', ''--extract-audio'', ''--audio-format'', ''mp3'',
      ''--audio-quality'', q,
      ''--postprocessor-args'', ''ffmpeg:-t '' @ str_int duration,
      ''--output'', replace ''.mp3'' ''.%(ext)s'' output_path,
      ''--no-playlist'', ''--quiet'', ''--no-warnings'', ''--ignore-errors'',
      ''--fragment-retries'', ''5'', ''--retries'', ''5'', ''--socket-timeout'', ''30'',
      url]"

definition twitch_cmd :: "string \<Rightarrow> string \<Rightarrow> int \<Rightarrow> string \<Rightarrow> string list" where
  "twitch_cmd url output_path duration q =
     [''yt-dlp'', ''--extract-audio'', ''--audio-format'', ''mp3'',
      ''--audio-quality'', q,
      ''--postprocessor-args'', ''ffmpeg:-t '' @ str_int duration,
      ''--output'', replace ''.mp3'' ''.%(ext)s'' output_path,
      ''--quiet'', ''--no-warnings'', ''--ignore-errors'',
      ''--fragment-retries'', ''5'', ''--retries'', ''5'', ''--socket-timeout'', ''30'',
      url]"

definition success_result ::
  "env \<Rightarrow> state \<Rightarrow> string \<Rightarrow> string \<Rightarrow> string \<Rightarrow> string \<Rightarrow> int \<Rightarrow> extraction_result" where
  \<comment> \<open>the dictionary returned by the rung that wins, \<open>label\<close> being youtube or twitch\<close>
  "success_result e st label output_path nickname q duration =
     \<lparr>success = True, file_path = Some output_path,
      status = label @ ''_success_'' @ nickname @ ''_quality_'' @ q
               @ ''_duration_'' @ str_int duration @ ''s'',
      actual_duration = Some duration,
      file_size = Some (path_getsize e st output_path)\<rparr>"

text \<open>
  The \<open>for quality, timeout in quality_options\<close> loop, written twice in the source
  (in \<open>_extract_youtube_sample\<close> and in \<open>_extract_twitch_sample\<close>) with the same body
  but for the platform's name in the status and the command line: a rung wins when the
  process exits with code 0 and the output file exists afterwards; a nonzero exit, a
  missing file, a timeout and any other exception go on to the next rung.
\<close>

fun quality_ladder ::
  "env \<Rightarrow> string \<Rightarrow> (string \<Rightarrow> string list) \<Rightarrow> (string \<times> int) list
   \<Rightarrow> string \<Rightarrow> string \<Rightarrow> int \<Rightarrow> state \<Rightarrow> extraction_result \<times> state" where
  "quality_ladder e label cmd [] output_path nickname duration st =
     (failure_result (label @ ''_failed_all_qualities_'' @ nickname
                      @ ''_duration_'' @ str_int duration @ ''s''), st)"
| "quality_ladder e label cmd ((q, t) # rest) output_path nickname duration st =
     (case subprocess_run e (cmd q) t st of
        (Completed returncode stdout, st') \<Rightarrow>
          if returncode = 0 \<and> path_exists e st' output_path
          then (success_result e st' label output_path nickname q duration, st')
          else quality_ladder e label cmd rest output_path nickname duration st'
      | (Raised exn, st') \<Rightarrow>
          quality_ladder e label cmd rest output_path nickname duration st')"

definition extract_youtube_sample ::
  "extractor \<Rightarrow> env \<Rightarrow> string \<Rightarrow> string \<Rightarrow> string \<Rightarrow> int \<Rightarrow> state
   \<Rightarrow> extraction_result \<times> state" where
  "extract_youtube_sample ex e url output_path nickname duration st =
     quality_ladder e ''youtube'' (youtube_cmd url output_path duration)
       (youtube_quality_options ex duration) output_path nickname duration st"

section \<open>Twitch: the most recent VOD of a channel\<close>

definition listing_cmd :: "string \<Rightarrow> string list" where
  "listing_cmd videos_url =
     [''yt-dlp'', ''--dump-json'', ''--playlist-end'', ''1'', ''--quiet'', ''--no-warnings'',
      videos_url]"

definition json_truthy :: "json \<Rightarrow> bool" where
  "json_truthy v =
     (case v of JNull \<Rightarrow> False | JBool b \<Rightarrow> b | JInt i \<Rightarrow> i \<noteq> 0
      | JFloat m x \<Rightarrow> m \<noteq> 0 | JStr s \<Rightarrow> s \<noteq> []
      | JArr xs \<Rightarrow> xs \<noteq> [] | JObj kv \<Rightarrow> kv \<noteq> [])"

definition dict_get :: "(string \<times> json) list \<Rightarrow> string \<Rightarrow> json \<Rightarrow> json" where
  \<comment> \<open>\<open>d.get(key, default)\<close>; \<open>d.get(key)\<close> is \<open>dict_get d key JNull\<close>\<close>
  "dict_get kv k d = (case map_of kv k of Some v \<Rightarrow> v | None \<Rightarrow> d)"

definition py_or :: "json \<Rightarrow> json \<Rightarrow> json" where
  "py_or a b = (if json_truthy a then a else b)"

definition sliceable :: "json \<Rightarrow> bool" where
  \<comment> \<open>\<open>v[:30]\<close> is defined on strings and lists\<close>
  "sliceable v = (case v of JStr s \<Rightarrow> True | JArr xs \<Rightarrow> True | _ \<Rightarrow> False)"

definition nonblank_lines :: "string \<Rightarrow> string list" where
  \<comment> \<open>\<open>[line for line in s.split('\n') if line.strip()]\<close>\<close>
  "nonblank_lines s = filter (\<lambda>line. strip line \<noteq> []) (split_on (CHR 0x0A) s)"

definition no_recent_vods :: "string \<Rightarrow> extraction_result" where
  "no_recent_vods nickname = failure_result (''no_recent_vods_found_for_'' @ nickname)"

definition vod_search_failed :: "string \<Rightarrow> string \<Rightarrow> extraction_result" where
  \<comment> \<open>the \<open>except Exception as e\<close> branch, \<open>msg\<close> being \<open>str(e)\<close>\<close>
  "vod_search_failed nickname msg =
     failure_result (''twitch_vod_search_failed_'' @ nickname @ '': '' @ take 100 msg)"

definition exception_text :: "py_exception \<Rightarrow> string" where
  "exception_text x = (case x of TimeoutExpired m \<Rightarrow> m | OtherException m \<Rightarrow> m)"

definition twitch_failed_all :: "string \<Rightarrow> int \<Rightarrow> extraction_result" where
  "twitch_failed_all nickname duration =
     failure_result (''twitch_failed_all_qualities_'' @ nickname
                     @ ''_duration_'' @ str_int duration @ ''s'')"

text \<open>
  \<open>_extract_twitch_sample\<close> and \<open>_try_get_recent_twitch_vod\<close> call each other. The
  first argument counts the nested VOD resolutions the interpreter still allows: at 0
  the next one raises RecursionError inside the \<open>try\<close> block of
  \<open>_try_get_recent_twitch_vod\<close>, which turns it into a failure like any other exception.
  A resolved URL that is not a string makes \<open>_extract_twitch_sample\<close> raise inside that
  \<open>try\<close> block (a number or a bool on the \<open>in\<close> test; a list or a dict on \<open>endswith\<close>),
  or, for a list or dict holding \<open>/videos/\<close> or \<open>/clip/\<close>, fail on every rung before any
  process is started.
\<close>

fun extract_twitch_sample ::
    "nat \<Rightarrow> extractor \<Rightarrow> env \<Rightarrow> string \<Rightarrow> string \<Rightarrow> string \<Rightarrow> int \<Rightarrow> state
     \<Rightarrow> extraction_result \<times> state"
  and try_get_recent_twitch_vod ::
    "nat \<Rightarrow> extractor \<Rightarrow> env \<Rightarrow> string \<Rightarrow> string \<Rightarrow> string \<Rightarrow> int \<Rightarrow> state
     \<Rightarrow> extraction_result \<times> state" where
  "extract_twitch_sample depth ex e url output_path nickname duration st =
     (if \<not> contains ''/videos/'' url \<and> \<not> contains ''/clip/'' url
         \<and> \<not> endswith url ''/videos''
      then try_get_recent_twitch_vod depth ex e
             (rstrip_by (\<lambda>c. c = CHR ''/'') url @ ''/videos'') output_path nickname duration st
      else quality_ladder e ''twitch'' (twitch_cmd url output_path duration)
             (twitch_quality_options ex duration) output_path nickname duration st)"
| "try_get_recent_twitch_vod 0 ex e videos_url output_path nickname duration st =
     (vod_search_failed nickname (interp_text e RecursionLimit), st)"
| "try_get_recent_twitch_vod (Suc depth) ex e videos_url output_path nickname duration st =
     (case subprocess_run e (listing_cmd videos_url) 120 st of
        (Raised exn, st') \<Rightarrow> (vod_search_failed nickname (exception_text exn), st')
      | (Completed returncode stdout, st') \<Rightarrow>
          if returncode = 0 \<and> strip stdout \<noteq> [] then
            (case nonblank_lines (strip stdout) of
               [] \<Rightarrow> (no_recent_vods nickname, st')
             | line # _ \<Rightarrow>
                 (case json_loads e line of
                    Inl exn \<Rightarrow> (vod_search_failed nickname (exception_text exn), st')
                  | Inr (JObj vod_info) \<Rightarrow>
                      (let vod_url = py_or (dict_get vod_info ''webpage_url'' JNull)
                                           (dict_get vod_info ''url'' JNull);
                           vod_title = dict_get vod_info ''title'' (JStr ''Unknown Title'')
                       in if \<not> sliceable vod_title
                          then (vod_search_failed nickname
                                  (interp_text e (NotSubscriptable vod_title)), st')
                          else if json_truthy vod_url then
                            (case vod_url of
                               JStr u \<Rightarrow>
                                 extract_twitch_sample depth ex e u output_path nickname
                                   duration st'
                             | JArr xs \<Rightarrow>
                                 if JStr ''/videos/'' \<notin> set xs \<and> JStr ''/clip/'' \<notin> set xs
                                 then (vod_search_failed nickname
                                         (interp_text e (NoAttribute vod_url ''endswith'')), st')
                                 else (twitch_failed_all nickname duration, st')
                             | JObj kv \<Rightarrow>
                                 if ''/videos/'' \<notin> fst ` set kv \<and> ''/clip/'' \<notin> fst ` set kv
                                 then (vod_search_failed nickname
                                         (interp_text e (NoAttribute vod_url ''endswith'')), st')
                                 else (twitch_failed_all nickname duration, st')
                             | _ \<Rightarrow> (vod_search_failed nickname
                                       (interp_text e (NotIterable vod_url)), st'))
                          else (no_recent_vods nickname, st'))
                  | Inr v \<Rightarrow>
                      (vod_search_failed nickname (interp_text e (NoAttribute v ''get'')), st')))
          else (no_recent_vods nickname, st'))"

definition path_join :: "string \<Rightarrow> string \<Rightarrow> string" where
  \<comment> \<open>\<open>os.path.join(a, b)\<close> on POSIX\<close>
  "path_join a b =
     (if startswith b ''/'' then b
      else if a = [] \<or> endswith a ''/'' then a @ b
      else a @ ''/'' @ b)"

definition extract_audio_sample ::
  "extractor \<Rightarrow> env \<Rightarrow> string \<Rightarrow> string \<Rightarrow> pyval \<Rightarrow> string \<Rightarrow> int \<Rightarrow> state
   \<Rightarrow> extraction_result \<times> state" where
  \<comment> \<open>\<open>_extract_audio_sample\<close>; nothing it calls raises here, so its \<open>except\<close> branch
      has no counterpart\<close>
  "extract_audio_sample ex e url filename platform nickname duration st =
     (let output_path = path_join (output_dir ex) (filename @ ''.mp3'')
      in if platform = PStr ''youtube''
         then extract_youtube_sample ex e url output_path nickname duration st
         else if platform = PStr ''twitch''
         then extract_twitch_sample (recursion_limit e) ex e url output_path nickname duration st
         else (failure_result (''unsupported_platform: '' @ py_str platform), st))"

section \<open>Usernames and file names\<close>

text \<open>
  A link record is a dictionary. \<open>link_url\<close> is the value of
  \<open>link_data.get('url', '')\<close>, a string or \<open>None\<close> as the methods that receive it
  declare (\<open>url: str\<close>), and \<open>platform_type\<close> that of
  \<open>link_data.get('platform_type', 'unknown')\<close>, so an absent key is its default. The
  platform may be any value: the loop calls \<open>platform.lower()\<close> outside every \<open>try\<close>
  block, which raises on a value that is true and not a string (NaN, a number). All
  other entries are in \<open>entries\<close>. The records of a list are taken to be distinct
  objects.
\<close>

record link_data =
  link_url :: "string option"
  platform_type :: pyval
  entries :: "string \<rightharpoonup> pyval"

definition str_truthy :: "string option \<Rightarrow> bool" where
  \<comment> \<open>the truth value of a string or \<open>None\<close>\<close>
  "str_truthy v = (case v of None \<Rightarrow> False | Some s \<Rightarrow> s \<noteq> [])"

fun search_group :: "string \<Rightarrow> (char \<Rightarrow> bool) \<Rightarrow> string \<Rightarrow> string \<Rightarrow> string option" where
  \<comment> \<open>\<open>re.search\<close> of a pattern made of a literal, one group \<open>([cls]+)\<close> and a literal
      that starts with a character outside the class (or is empty): the group of the
      leftmost match\<close>
  "search_group lit cls suffix [] = None"
| "search_group lit cls suffix (c # cs) =
     (let rest = drop (length lit) (c # cs); run = takeWhile cls rest
      in if take (length lit) (c # cs) = lit \<and> run \<noteq> []
            \<and> take (length suffix) (drop (length run) rest) = suffix
         then Some run
         else search_group lit cls suffix cs)"

definition youtube_patterns :: "(string \<times> (char \<Rightarrow> bool)) list" where
  "youtube_patterns =
     [(''/channel/'', \<lambda>c. c \<notin> set ''/?''),
      (''/user/'', \<lambda>c. c \<notin> set ''/?''),
      (''/c/'', \<lambda>c. c \<notin> set ''/?''),
      (''/@'', \<lambda>c. c \<notin> set ''/?''),
      (''/watch?v='', \<lambda>c. c \<noteq> CHR ''&''),
      (''youtu.be/'', \<lambda>c. c \<notin> set ''/?'')]"

fun first_match :: "(string \<times> (char \<Rightarrow> bool)) list \<Rightarrow> string \<Rightarrow> string option" where
  \<comment> \<open>the YouTube loop returns at the first pattern that matches\<close>
  "first_match [] url = None"
| "first_match ((lit, cls) # ps) url =
     (case search_group lit cls [] url of
        Some g \<Rightarrow> Some g
      | None \<Rightarrow> first_match ps url)"

definition twitch_reserved :: "string \<Rightarrow> bool" where
  "twitch_reserved username = (lower username \<in> set [''videos'', ''clips'', ''collections''])"

definition twitch_patterns :: "(string \<times> (char \<Rightarrow> bool) \<times> string) list" where
  "twitch_patterns =
     [(''twitch.tv/'', \<lambda>c. c \<notin> set ''/?'', []),
      (''twitch.tv/'', \<lambda>c. c \<noteq> CHR ''/'', ''/videos'')]"

fun twitch_match :: "(string \<times> (char \<Rightarrow> bool) \<times> string) list \<Rightarrow> string \<Rightarrow> string option" where
  \<comment> \<open>the Twitch loop goes on to the next pattern when the name found is a reserved one\<close>
  "twitch_match [] url = None"
| "twitch_match ((lit, cls, suffix) # ps) url =
     (case search_group lit cls suffix url of
        Some username \<Rightarrow>
          if \<not> twitch_reserved username then Some (take 20 username)
          else twitch_match ps url
      | None \<Rightarrow> twitch_match ps url)"

definition extract_username_from_url :: "string option \<Rightarrow> string option" where
  \<comment> \<open>\<open>_extract_username_from_url\<close>; on a string nothing in its \<open>try\<close> block raises\<close>
  "extract_username_from_url url_opt =
     (case url_opt of
        None \<Rightarrow> None
      | Some url \<Rightarrow>
          if url = [] then None
          else if contains ''youtube.com'' url \<or> contains ''youtu.be'' url then
            (case first_match youtube_patterns url of
               None \<Rightarrow> None
             | Some g \<Rightarrow>
                 (let username = take 20 g
                  in if \<not> startswith username ''UC'' then Some username
                     else Some (''yt_'' @ drop (length username - 8) username)))
          else if contains ''twitch.tv'' url then twitch_match twitch_patterns url
          else None)"

definition is_empty_value :: "pyval \<Rightarrow> bool" where
  \<comment> \<open>\<open>_is_empty_value\<close>: \<open>pd.isna\<close> holds of \<open>None\<close> and NaN\<close>
  "is_empty_value v =
     (case v of
        PNone \<Rightarrow> True
      | PNaN \<Rightarrow> True
      | _ \<Rightarrow> strip (lower (py_str v)) \<in> set [''nan'', '''', ''none'', ''null''])"

definition descriptive_words :: "string list" where
  "descriptive_words =
     [''check'', ''pinned'', ''moved'', ''see'', ''bio'', ''link'', ''follow'', ''subscribe'']"

definition is_descriptive_text :: "string \<Rightarrow> bool" where
  "is_descriptive_text t =
     (if t = [] \<or> length t > 30 then True
      else (let word_count = length (filter (\<lambda>w. contains w (lower t)) descriptive_words)
            in word_count \<ge> 1 \<or> length (filter (\<lambda>c. c = CHR '' '') t) \<ge> 2))"

fun username_from_fields :: "(string \<rightharpoonup> pyval) \<Rightarrow> string list \<Rightarrow> string option" where
  \<comment> \<open>the loop over the identity fields\<close>
  "username_from_fields m [] = None"
| "username_from_fields m (field # rest) =
     (let v = (case m field of Some x \<Rightarrow> x | None \<Rightarrow> PNone)
      in if pyval_truthy v \<and> \<not> is_empty_value v
            \<and> strip (py_str v) \<noteq> [] \<and> \<not> is_descriptive_text (strip (py_str v))
         then Some (strip (py_str v))
         else username_from_fields m rest)"

definition fallback_username :: "env \<Rightarrow> string option \<Rightarrow> state \<Rightarrow> string \<times> state" where
  \<comment> \<open>priorities 3 and 4 of \<open>_extract_best_username\<close>: an id from the hash of the URL,
      or from the clock\<close>
  "fallback_username e url st =
     (if str_truthy url
      then (''user_'' @ str_int (abs (py_hash e (the url)) mod 10000), st)
      else (case time_time e st of (t, st') \<Rightarrow> (''user_'' @ str_int (t mod 10000), st')))"

definition extract_best_username ::
  "env \<Rightarrow> link_data \<Rightarrow> string option \<Rightarrow> state \<Rightarrow> string \<times> state" where
  \<comment> \<open>\<open>_extract_best_username\<close>\<close>
  "extract_best_username e ld url st =
     (let username_from_url = extract_username_from_url url
      in if username_from_url \<noteq> None \<and> length (the username_from_url) > 2
         then (the username_from_url, st)
         else (case username_from_fields (entries ld)
                      [''username'', ''screen_name'', ''user_name'', ''handle''] of
                 Some username \<Rightarrow> (username, st)
               | None \<Rightarrow> fallback_username e url st))"

function sub_runs :: "(char \<Rightarrow> bool) \<Rightarrow> char \<Rightarrow> string \<Rightarrow> string" where
  \<comment> \<open>\<open>re.sub\<close> of a class repeated (\<open>\s+\<close>, \<open>_+\<close>) by one character\<close>
  "sub_runs p r [] = []"
| "sub_runs p r (c # cs) =
     (if p c then r # sub_runs p r (dropWhile p cs) else c # sub_runs p r cs)"
  by pat_completeness auto
termination
  by (relation "measure (\<lambda>(p, r, s). length s)")
     (auto simp: length_dropWhile_le less_Suc_eq_le)

definition clean_filename :: "string \<Rightarrow> string" where
  \<comment> \<open>the five substitutions of \<open>_sanitize_filename\<close> and the cut to 20 characters\<close>
  "clean_filename filename =
     (let f1 = filter (\<lambda>c. is_word c \<or> isspace c \<or> c = CHR ''-'') filename;
          f2 = lower f1;
          f3 = sub_runs isspace (CHR ''_'') f2;
          f4 = strip_char (CHR ''_'') (sub_runs (\<lambda>c. c = CHR ''_'') (CHR ''_'') f3);
          f5 = filter is_ascii_word f4
      in if length f5 > 20 then take 20 f5 else f5)"

definition sanitize_filename :: "env \<Rightarrow> string \<Rightarrow> state \<Rightarrow> string \<times> state" where
  \<comment> \<open>\<open>_sanitize_filename\<close>\<close>
  "sanitize_filename e filename st =
     (if filename = [] \<or> is_empty_value (PStr filename)
      then (case time_time e st of (t, st') \<Rightarrow> (''user_'' @ str_int (t mod 10000), st'))
      else (let f = clean_filename filename
            in if f = [] \<or> length f < 2
               then (case time_time e st of
                       (t, st') \<Rightarrow> (''user_'' @ str_int (t mod 10000), st'))
               else (f, st)))"

section \<open>The batch\<close>

definition update_link ::
  "extractor \<Rightarrow> link_data \<Rightarrow> extraction_result \<Rightarrow> int \<Rightarrow> string \<Rightarrow> string \<Rightarrow> string
   \<Rightarrow> string \<Rightarrow> link_data" where
  \<comment> \<open>\<open>link_data.update({...})\<close>\<close>
  "update_link ex ld res optimal_duration safe_username filename safe_platform username =
     ld\<lparr>entries := (entries ld)
       (''sample_extracted'' \<mapsto> PBool (success res),
        ''sample_file'' \<mapsto> (case file_path res of Some p \<Rightarrow> PStr p | None \<Rightarrow> PNone),
        ''extraction_status'' \<mapsto> PStr (status res),
        ''sample_duration'' \<mapsto> PInt optimal_duration,
        ''actual_duration'' \<mapsto>
           PInt (case actual_duration res of Some d \<Rightarrow> d | None \<Rightarrow> optimal_duration),
        ''sample_quality'' \<mapsto> PStr (quality ex),
        ''processed_username'' \<mapsto> PStr safe_username,
        ''sample_filename'' \<mapsto> PStr (filename @ ''.mp3''),
        ''platform_source'' \<mapsto> PStr safe_platform,
        ''original_username'' \<mapsto> PStr username)\<rparr>"

definition safe_platform_of :: "env \<Rightarrow> pyval \<Rightarrow> py_exception + string" where
  \<comment> \<open>\<open>platform.lower() if platform else 'unknown'\<close>: AttributeError on a value that is
      true and has no method \<open>lower\<close>\<close>
  "safe_platform_of e platform =
     (if pyval_truthy platform
      then (case platform of
              PStr p \<Rightarrow> Inr (lower p)
            | _ \<Rightarrow> Inl (OtherException (interp_text e (NoAttributeOf platform ''lower''))))
      else Inr ''unknown'')"

definition process_link ::
  "extractor \<Rightarrow> env \<Rightarrow> link_data \<Rightarrow> state
   \<Rightarrow> py_exception + link_data \<times> bool \<times> state" where
  \<comment> \<open>one round of the loop of \<open>extract_voice_samples\<close>: the exception that leaves the
      loop, or the record as it is left, whether it was appended to
      \<open>extracted_samples\<close>, and the state\<close>
  "process_link ex e ld st =
     (case extract_best_username e ld (link_url ld) st of
        (username, st1) \<Rightarrow>
          if \<not> str_truthy (link_url ld) then Inr (ld, False, st1)
          else
            (case get_optimal_duration ex e (the (link_url ld)) (platform_type ld) st1 of
               (optimal_duration, st2) \<Rightarrow>
            (case sanitize_filename e username st2 of
               (safe_username, st3) \<Rightarrow>
            (case safe_platform_of e (platform_type ld) of
               Inl exn \<Rightarrow> Inl exn
             | Inr safe_platform \<Rightarrow>
            (case time_time e st3 of
               (timestamp, st4) \<Rightarrow>
            (let filename = safe_username @ ''_'' @ safe_platform @ ''_''
                              @ str_int optimal_duration @ ''s_'' @ str_int timestamp
             in
            (case extract_audio_sample ex e (the (link_url ld)) filename (platform_type ld)
                    safe_username optimal_duration st4 of
               (res, st5) \<Rightarrow>
                 Inr (update_link ex ld res optimal_duration safe_username filename
                        safe_platform username,
                      success res,
                      time_sleep 2 st5))))))))"

text \<open>
  An exception that leaves the loop leaves the call: \<open>extract_voice_samples\<close> has no
  \<open>try\<close> block of its own. What the records processed before look like at that moment
  is not part of the result.
\<close>

fun process_links ::
  "extractor \<Rightarrow> env \<Rightarrow> link_data list \<Rightarrow> state
   \<Rightarrow> py_exception + link_data list \<times> link_data list \<times> state" where
  \<comment> \<open>the loop: the records as they are left, \<open>extracted_samples\<close>, and the state\<close>
  "process_links ex e [] st = Inr ([], [], st)"
| "process_links ex e (ld # rest) st =
     (case process_link ex e ld st of
        Inl exn \<Rightarrow> Inl exn
      | Inr (ld', appended, st') \<Rightarrow>
          (case process_links ex e rest st' of
             Inl exn \<Rightarrow> Inl exn
           | Inr (lds, extracted, st'') \<Rightarrow>
               Inr (ld' # lds, (if appended then ld' # extracted else extracted), st'')))"

definition extract_voice_samples ::
  "extractor \<Rightarrow> env \<Rightarrow> link_data list \<Rightarrow> state
   \<Rightarrow> py_exception + link_data list \<times> link_data list \<times> state" where
  \<comment> \<open>\<open>extract_voice_samples\<close>: the exception it raises, or the input records as the call
      leaves them, the list it returns, and the state\<close>
  "extract_voice_samples ex e confirmed_voice_links st =
     (if confirmed_voice_links = [] then Inr ([], [], st)
      else process_links ex e confirmed_voice_links st)"

section \<open>Notions used in the statements\<close>

text \<open>
  The definitions of this section are not taken from the source: they name what the
  statements below talk about.
\<close>

definition clamp_into :: "int \<Rightarrow> int \<Rightarrow> int \<Rightarrow> int" where
  \<comment> \<open>a value clamped into the interval from lo to hi: lowered to hi, then raised to lo\<close>
  "clamp_into lo hi v = max lo (min v hi)"

definition highest_quality_first :: "(string \<times> int) list \<Rightarrow> bool" where
  \<comment> \<open>the bitrates of the rungs are numbers and never go up from one rung to the next\<close>
  "highest_quality_first rungs =
     (list_all (\<lambda>(q, t). py_int q \<noteq> None) rungs
      \<and> sorted (rev (map (\<lambda>(q, t). the (py_int q)) rungs)))"

definition lowers :: "pyval \<Rightarrow> bool" where
  \<comment> \<open>a platform value on which \<open>platform.lower() if platform else 'unknown'\<close> does not
      raise: a string, or a value that is false\<close>
  "lowers v = (case v of PStr s \<Rightarrow> True | _ \<Rightarrow> \<not> pyval_truthy v)"

definition twitch_direct :: "string \<Rightarrow> bool" where
  \<comment> \<open>a URL on which \<open>_extract_twitch_sample\<close> makes no listing query: one of its two
      nested \<open>if\<close> tests is false\<close>
  "twitch_direct url =
     (\<not> (\<not> contains ''/videos/'' url \<and> \<not> contains ''/clip/'' url
         \<and> \<not> endswith url ''/videos''))"

definition twitch_call_ok :: "string \<Rightarrow> int \<Rightarrow> call \<Rightarrow> bool" where
  \<comment> \<open>a listing query, or a download of a URL that \<open>_extract_twitch_sample\<close> takes as a
      direct one\<close>
  "twitch_call_ok output_path duration c =
     ((\<exists>v. c = Run (listing_cmd v) 120)
      \<or> (\<exists>u q t. twitch_direct u \<and> c = Run (twitch_cmd u output_path duration q) t))"

definition grows :: "string \<Rightarrow> int \<Rightarrow> state \<Rightarrow> state \<Rightarrow> bool" where
  \<comment> \<open>the later state has the log of the earlier one, followed by listing queries and
      downloads of direct URLs only\<close>
  "grows output_path duration st st' =
     (\<exists>new. calls st' = calls st @ new
            \<and> (\<forall>c\<in>set new. twitch_call_ok output_path duration c))"

definition rung_succeeds :: "env \<Rightarrow> nat \<Rightarrow> string \<Rightarrow> bool" where
  \<comment> \<open>the k-th process exits with code 0 and the output file exists afterwards\<close>
  "rung_succeeds e k output_path =
     (case run_result_at e k of
        Completed returncode stdout \<Rightarrow>
          returncode = 0 \<and> files_at e (Suc k) output_path \<noteq> None
      | Raised exn \<Rightarrow> False)"

definition rung_calls :: "(string \<Rightarrow> string list) \<Rightarrow> (string \<times> int) list \<Rightarrow> call list" where
  \<comment> \<open>the processes started for the given rungs, in their order\<close>
  "rung_calls cmd rungs = map (\<lambda>(q, t). Run (cmd q) t) rungs"

definition marked_extracted :: "link_data \<Rightarrow> bool" where
  \<comment> \<open>a record with a URL whose \<open>sample_extracted\<close> entry is \<open>True\<close>\<close>
  "marked_extracted ld =
     (str_truthy (link_url ld) \<and> entries ld ''sample_extracted'' = Some (PBool True))"

definition output_keys :: "string list" where
  \<comment> \<open>the keys written by \<open>link_data.update\<close>\<close>
  "output_keys =
     [''sample_extracted'', ''sample_file'', ''extraction_status'', ''sample_duration'',
      ''actual_duration'', ''sample_quality'', ''processed_username'', ''sample_filename'',
      ''platform_source'', ''original_username'']"

definition out_alphabet :: "char set" where
  \<comment> \<open>the characters of a sanitized name\<close>
  "out_alphabet = set (ascii_lowercase @ ascii_digits @ ''_'')"

definition record_url :: "(string \<times> json) list \<Rightarrow> json" where
  \<comment> \<open>\<open>vod_info.get('webpage_url') or vod_info.get('url')\<close>\<close>
  "record_url kv = py_or (dict_get kv ''webpage_url'' JNull) (dict_get kv ''url'' JNull)"

definition record_title :: "(string \<times> json) list \<Rightarrow> json" where
  \<comment> \<open>\<open>vod_info.get('title', 'Unknown Title')\<close>\<close>
  "record_title kv = dict_get kv ''title'' (JStr ''Unknown Title'')"

definition new_calls :: "state \<Rightarrow> state \<Rightarrow> call list" where
  \<comment> \<open>the calls logged between an earlier and a later state\<close>
  "new_calls st st' = drop (length (calls st)) (calls st')"

section \<open>Example environments\<close>

definition default_extractor :: extractor where
  "default_extractor =
     \<lparr>output_dir = ''voice_samples'', min_duration = 30, max_duration = 3600,
      quality = ''192''\<rparr>"

definition state0 :: state where
  "state0 = \<lparr>n_run = 0, n_time = 0, calls = []\<rparr>"

definition env_of :: "(nat \<Rightarrow> run_result) \<Rightarrow> env" where
  \<comment> \<open>an environment with the given process outcomes, no files, and a fixed clock\<close>
  "env_of rs =
     \<lparr>run_result_at = rs, files_at = (\<lambda>k p. None), time_at = (\<lambda>k. 1700000000),
      py_hash = (\<lambda>s. int (length s)),
      json_loads = (\<lambda>s. Inl (OtherException ''Expecting value'')),
      interp_text = (\<lambda>x. ''error''),
      recursion_limit = 400\<rparr>"

definition env_probe_prints :: "string \<Rightarrow> env" where
  \<comment> \<open>every process exits with code 0 and prints the given line\<close>
  "env_probe_prints out = env_of (\<lambda>k. Completed 0 (out @ [CHR 0x0A]))"

definition env_all_timeout :: env where
  "env_all_timeout = env_of (\<lambda>k. Raised (TimeoutExpired ''timed out''))"

definition low_quality_extractor :: extractor where
  "low_quality_extractor = default_extractor\<lparr>quality := ''64''\<rparr>"

definition env_all_succeed :: env where
  \<comment> \<open>every process exits with code 0 and every file exists\<close>
  "env_all_succeed = (env_of (\<lambda>k. Completed 0 []))\<lparr>files_at := (\<lambda>k p. Some 1000)\<rparr>"

definition link_nan_platform :: link_data where
  "link_nan_platform =
     \<lparr>link_url = Some ''https://youtu.be/abc'', platform_type = PNaN,
      entries = Map.empty\<rparr>"

definition env_second_rung :: env where
  "env_second_rung =
     (env_of (\<lambda>k. if k = 1 then Completed 0 [] else Raised (TimeoutExpired ''timed out'')))
       \<lparr>files_at := (\<lambda>k p. if 2 \<le> k then Some 1000 else None)\<rparr>"

definition vod_json :: json where
  "vod_json = JObj [(''webpage_url'', JStr ''https://www.twitch.tv/videos/123''),
                    (''title'', JStr ''Stream'')]"

definition env_channel_vod :: env where
  \<comment> \<open>the listing prints one record; the first download succeeds\<close>
  "env_channel_vod =
     (env_of (\<lambda>k. if k = 0 then Completed 0 (''{...}'' @ [CHR 0x0A]) else Completed 0 []))
       \<lparr>files_at := (\<lambda>k p. if 2 \<le> k then Some 1000 else None),
         json_loads := (\<lambda>s. Inr vod_json)\<rparr>"

definition link_creator :: link_data where
  "link_creator =
     \<lparr>link_url = Some ''https://youtube.com/@creator1/watch?v=abc'',
      platform_type = PStr ''youtube'',
      entries = [''username'' \<mapsto> PStr ''someone_else'']\<rparr>"

definition env_idle :: env where
  \<comment> \<open>every process exits with code 0 and prints nothing\<close>
  "env_idle = env_of (\<lambda>k. Completed 0 [])"

definition link_vimeo :: link_data where
  "link_vimeo =
     \<lparr>link_url = Some ''https://vimeo.com/12345'', platform_type = PStr ''vimeo'',
      entries = Map.empty\<rparr>"

definition link_no_url :: link_data where
  "link_no_url = \<lparr>link_url = Some [], platform_type = PStr ''youtube'', entries = Map.empty\<rparr>"

definition env_batch :: env where
  "env_batch =
     (env_of (\<lambda>k. if k = 0 then Completed 0 (''0:00:45'' @ [CHR 0x0A])
                   else if k = 2 then Completed 0 []
                   else Raised (TimeoutExpired ''timed out'')))
       \<lparr>files_at := (\<lambda>k p. if k = 3 then Some 1000 else None)\<rparr>"

definition creator_result :: extraction_result where
  "creator_result =
     \<lparr>success = True,
      file_path = Some ''voice_samples/creator1_youtube_45s_1700000000.mp3'',
      status = ''youtube_success_creator1_quality_128_duration_45s'',
      actual_duration = Some 45, file_size = Some 1000\<rparr>"

definition creator_done :: link_data where
  "creator_done =
     update_link default_extractor link_creator creator_result 45 ''creator1''
       ''creator1_youtube_45s_1700000000'' ''youtube'' ''creator1''"

definition vimeo_done :: link_data where
  "vimeo_done =
     update_link default_extractor link_vimeo (failure_result ''unsupported_platform: vimeo'')
       3600 ''user_23'' ''user_23_vimeo_3600s_1700000000'' ''vimeo'' ''user_23''"

definition state_after_creator :: state where
  "state_after_creator =
     \<lparr>n_run = 3, n_time = 1,
      calls = [Run (probe_cmd ''https://youtube.com/@creator1/watch?v=abc'') 30,
               Run (youtube_cmd ''https://youtube.com/@creator1/watch?v=abc''
                      ''voice_samples/creator1_youtube_45s_1700000000.mp3'' 45 ''192'') 300,
               Run (youtube_cmd ''https://youtube.com/@creator1/watch?v=abc''
                      ''voice_samples/creator1_youtube_45s_1700000000.mp3'' 45 ''128'') 240,
               Sleep 2]\<rparr>"

definition state_after_vimeo :: state where
  "state_after_vimeo =
     state_after_creator
       \<lparr>n_run := 4, n_time := 2,
        calls := calls state_after_creator
                   @ [Run (probe_cmd ''https://vimeo.com/12345'') 30, Sleep 2]\<rparr>"

section \<open>Evaluation\<close>

text \<open>The defining equations used to evaluate the functions on concrete inputs.\<close>

lemmas char_defs =
  isspace_def isdigit_def ascii_digits_def ascii_uppercase_def ascii_lowercase_def
  is_word_def is_ascii_word_def latin1_alnum_def lower_def lower_char_def

lemmas strip_defs = strip_def lstrip_by_def rstrip_by_def strip_char_def

lemmas int_defs =
  int_space_def digits_ok_def digits_value_def digit_val_def py_int_def str_int_def str_nat.simps
  digit_char_def

lemmas world_defs =
  subprocess_run_def path_exists_def path_getsize_def time_time_def time_sleep_def

lemmas example_defs =
  env_of_def state0_def default_extractor_def env_probe_prints_def env_all_timeout_def
  env_second_rung_def low_quality_extractor_def env_all_succeed_def
  link_nan_platform_def env_channel_vod_def vod_json_def env_idle_def env_batch_def
  link_creator_def link_vimeo_def link_no_url_def

lemmas duration_defs =
  get_optimal_duration_def parse_duration_string_def parse_duration_body_def
  clamp_duration_def int_of_list_def float_of_list_def

lemmas ladder_defs =
  extract_youtube_sample_def youtube_quality_options_def twitch_quality_options_def
  timeout_multiplier_def rung_succeeds_def success_result_def failure_result_def
  twitch_direct_def rung_calls_def

lemmas twitch_defs =
  endswith_def listing_cmd_def nonblank_lines_def py_or_def dict_get_def json_truthy_def
  sliceable_def vod_search_failed_def no_recent_vods_def exception_text_def

lemmas name_defs =
  extract_username_from_url_def youtube_patterns_def twitch_patterns_def startswith_def
  twitch_reserved_def is_empty_value_def is_descriptive_text_def descriptive_words_def
  py_str_def pyval_truthy_def extract_best_username_def fallback_username_def
  str_truthy_def

lemmas san_defs = sanitize_filename_def clean_filename_def

lemmas batch_defs =
  process_link_def safe_platform_of_def extract_audio_sample_def path_join_def

lemmas eval_defs =
  char_defs strip_defs int_defs world_defs example_defs duration_defs ladder_defs
  twitch_defs name_defs san_defs batch_defs

section \<open>Duration parsing and resolution\<close>

text \<open>
  C1. The parser is to turn \<open>H:MM:SS\<close>, \<open>MM:SS\<close> and a bare number of seconds into
  seconds. The code does so for \<open>H:MM:SS\<close> only: in the two other branches it passes
  the whole list of parts to \<open>int\<close> and to \<open>float\<close>, which raises, and the bare
  \<open>except\<close> returns 0. So "1:02:03" gives 3723, while "02:03" (123 expected) and "45"
  (45 expected) give 0, the value of a parse failure, and resolution falls back to the
  maximum duration for them.
\<close>

theorem C1_parse_duration_shapes:
  "parse_duration_string ''1:02:03'' = 3723
   \<and> parse_duration_string ''02:03'' = 0
   \<and> parse_duration_string ''45'' = 0
   \<and> parse_duration_string ''garbage'' = 0
   \<and> fst (get_optimal_duration default_extractor (env_probe_prints ''02:03'')
             ''https://youtu.be/abc'' (PStr ''youtube'') state0) = 3600
   \<and> fst (get_optimal_duration default_extractor (env_probe_prints ''45'')
             ''https://youtu.be/abc'' (PStr ''youtube'') state0) = 3600"
  by (simp add: eval_defs)

text \<open>
  C4. When the duration probe raises (a timeout or any other exception), exits with a
  nonzero code, prints nothing but whitespace, or prints a text the parser raises on,
  duration resolution returns the configured maximum duration.
\<close>

theorem C4_probe_failure_gives_max:
  assumes "case run_result_at e (n_run st) of
             Raised exn \<Rightarrow> True
           | Completed rc out \<Rightarrow>
               rc \<noteq> 0 \<or> strip out = [] \<or> parse_duration_body (strip out) = None"
  shows "fst (get_optimal_duration ex e url platform st) = max_duration ex"
  using assms
  by (auto simp: get_optimal_duration_def subprocess_run_def parse_duration_string_def
           split: run_result.splits)

theorem C4_probe_timeout_witness:
  "fst (get_optimal_duration default_extractor env_all_timeout
          ''https://youtu.be/abc'' (PStr ''youtube'') state0) = 3600
   \<and> fst (get_optimal_duration default_extractor (env_probe_prints ''garbage'')
          ''https://youtu.be/abc'' (PStr ''youtube'') state0) = 3600"
  using C4_probe_failure_gives_max
    [of env_all_timeout state0 default_extractor "''https://youtu.be/abc''" "PStr ''youtube''"]
    C4_probe_failure_gives_max
    [of "env_probe_prints ''garbage''" state0 default_extractor "''https://youtu.be/abc''"
        "PStr ''youtube''"]
  by (simp add: eval_defs)

text \<open>
  C6, as stated: whenever a duration is parsed from the probe, the resolved duration is
  that value clamped into the interval from \<open>min_duration\<close> to \<open>max_duration\<close>. This
  fails for a parsed value that is not positive: the probe output "0:00:00" parses to 0
  without any exception, and the resolved duration is the maximum 3600, where the clamp
  of 0 is the minimum 30.
\<close>

theorem C6_zero_duration_counterexample:
  "parse_duration_body ''0:00:00'' = Some 0
   \<and> fst (get_optimal_duration default_extractor (env_probe_prints ''0:00:00'')
             ''https://youtu.be/abc'' (PStr ''youtube'') state0) = 3600
   \<and> clamp_into (min_duration default_extractor) (max_duration default_extractor) 0 = 30"
  by (simp add: eval_defs clamp_into_def)

text \<open>
  C6, amended: whenever the probe succeeds and a duration is parsed from its output, the
  resolved duration is, for a positive value, that value clamped into the interval from
  \<open>min_duration\<close> to \<open>max_duration\<close>, both ends included, and, for a value that is zero
  or negative, \<open>max_duration\<close>. A value already in the interval is returned unchanged,
  clamping a clamped value changes nothing, and a value outside the interval is moved
  to an end of it, never a failure.
\<close>

theorem C6_parsed_duration_resolved:
  assumes "run_result_at e (n_run st) = Completed 0 out"
    and "strip out \<noteq> []"
    and "parse_duration_body (strip out) = Some t"
  shows "(0 < t \<longrightarrow> fst (get_optimal_duration ex e url platform st)
                    = clamp_into (min_duration ex) (max_duration ex) t)
         \<and> (t \<le> 0 \<longrightarrow> fst (get_optimal_duration ex e url platform st) = max_duration ex)
         \<and> (\<forall>d. min_duration ex \<le> d \<and> d \<le> max_duration ex
                \<longrightarrow> clamp_into (min_duration ex) (max_duration ex) d = d)
         \<and> clamp_into (min_duration ex) (max_duration ex)
               (clamp_into (min_duration ex) (max_duration ex) t)
             = clamp_into (min_duration ex) (max_duration ex) t
         \<and> (min_duration ex \<le> max_duration ex \<longrightarrow>
               clamp_into (min_duration ex) (max_duration ex) t
                 = (if t < min_duration ex then min_duration ex
                    else if max_duration ex < t then max_duration ex else t))"
  using assms
  by (auto simp: get_optimal_duration_def subprocess_run_def parse_duration_string_def
                 clamp_into_def clamp_duration_def)

theorem C6_resolved_durations_witness:
  "fst (get_optimal_duration default_extractor (env_probe_prints ''1:02:03'')
          ''https://youtu.be/abc'' (PStr ''youtube'') state0) = 3600
   \<and> fst (get_optimal_duration default_extractor (env_probe_prints ''0:00:10'')
          ''https://youtu.be/abc'' (PStr ''youtube'') state0) = 30
   \<and> fst (get_optimal_duration default_extractor (env_probe_prints ''0:00:45'')
          ''https://youtu.be/abc'' (PStr ''youtube'') state0) = 45
   \<and> fst (get_optimal_duration default_extractor (env_probe_prints ''0:00:00'')
          ''https://youtu.be/abc'' (PStr ''youtube'') state0) = 3600
   \<and> parse_duration_body ''-1:00:00'' = Some (- 3600)
   \<and> fst (get_optimal_duration default_extractor (env_probe_prints ''-1:00:00'')
          ''https://youtu.be/abc'' (PStr ''youtube'') state0) = 3600"
  using C6_parsed_duration_resolved
    [of "env_probe_prints ''1:02:03''" state0 "''1:02:03'' @ [CHR 0x0A]" 3723
        default_extractor "''https://youtu.be/abc''" "PStr ''youtube''"]
    C6_parsed_duration_resolved
    [of "env_probe_prints ''0:00:10''" state0 "''0:00:10'' @ [CHR 0x0A]" 10
        default_extractor "''https://youtu.be/abc''" "PStr ''youtube''"]
    C6_parsed_duration_resolved
    [of "env_probe_prints ''0:00:45''" state0 "''0:00:45'' @ [CHR 0x0A]" 45
        default_extractor "''https://youtu.be/abc''" "PStr ''youtube''"]
    C6_parsed_duration_resolved
    [of "env_probe_prints ''0:00:00''" state0 "''0:00:00'' @ [CHR 0x0A]" 0
        default_extractor "''https://youtu.be/abc''" "PStr ''youtube''"]
    C6_parsed_duration_resolved
    [of "env_probe_prints ''-1:00:00''" state0 "''-1:00:00'' @ [CHR 0x0A]" "- 3600"
        default_extractor "''https://youtu.be/abc''" "PStr ''youtube''"]
  by (simp add: eval_defs clamp_into_def)

section \<open>The quality ladder\<close>

lemma ladder_all_fail:
  "\<forall>i<length opts. \<not> rung_succeeds e (n_run st + i) p \<Longrightarrow>
   quality_ladder e label cmd opts p nick d st =
     (failure_result (label @ ''_failed_all_qualities_'' @ nick @ ''_duration_'' @ str_int d @ ''s''),
      st\<lparr>n_run := n_run st + length opts, calls := calls st @ rung_calls cmd opts\<rparr>)"
proof (induction opts arbitrary: st)
  case Nil
  then show ?case by (simp add: rung_calls_def)
next
  case (Cons a opts)
  obtain q t where a: "a = (q, t)" by (cases a)
  let ?st' = "st\<lparr>n_run := Suc (n_run st), calls := calls st @ [Run (cmd q) t]\<rparr>"
  from Cons.prems have h0: "\<not> rung_succeeds e (n_run st) p" by force
  from Cons.prems have "\<forall>i<length opts. \<not> rung_succeeds e (n_run ?st' + i) p" by force
  from Cons.IH[OF this] h0 show ?case
    by (auto simp: a subprocess_run_def rung_succeeds_def path_exists_def rung_calls_def
             split: run_result.splits)
qed

lemma ladder_first_success:
  "j < length opts \<Longrightarrow> \<forall>i<j. \<not> rung_succeeds e (n_run st + i) p \<Longrightarrow>
   rung_succeeds e (n_run st + j) p \<Longrightarrow>
   quality_ladder e label cmd opts p nick d st =
     (success_result e (st\<lparr>n_run := n_run st + Suc j,
                           calls := calls st @ rung_calls cmd (take (Suc j) opts)\<rparr>)
        label p nick (fst (opts ! j)) d,
      st\<lparr>n_run := n_run st + Suc j, calls := calls st @ rung_calls cmd (take (Suc j) opts)\<rparr>)"
proof (induction opts arbitrary: j st)
  case Nil
  then show ?case by simp
next
  case (Cons a opts)
  obtain q t where a: "a = (q, t)" by (cases a)
  let ?st' = "st\<lparr>n_run := Suc (n_run st), calls := calls st @ [Run (cmd q) t]\<rparr>"
  show ?case
  proof (cases j)
    case 0
    with Cons.prems show ?thesis
      by (auto simp: a subprocess_run_def rung_succeeds_def path_exists_def rung_calls_def
               split: run_result.splits)
  next
    case (Suc k)
    from Cons.prems Suc have h0: "\<not> rung_succeeds e (n_run st) p" by force
    from Cons.prems Suc have k: "k < length opts" by simp
    from Cons.prems Suc have "\<forall>i<k. \<not> rung_succeeds e (n_run ?st' + i) p" by force
    moreover from Cons.prems Suc have "rung_succeeds e (n_run ?st' + k) p" by simp
    ultimately show ?thesis
      using Cons.IH[OF k, of ?st'] h0
      by (auto simp: a Suc subprocess_run_def rung_succeeds_def path_exists_def rung_calls_def
               split: run_result.splits)
  qed
qed


lemma bitrates_128_96_64:
  "py_int ''128'' = Some 128" "py_int ''96'' = Some 96" "py_int ''64'' = Some 64"
  by (simp_all add: int_defs strip_defs char_defs)

lemma highest_first_iff:
  assumes "py_int q = Some n"
  shows "highest_quality_first [(q, t1), (''128'', t2), (''96'', t3), (''64'', t4)]
           \<longleftrightarrow> 128 \<le> n"
  using assms by (auto simp: highest_quality_first_def bitrates_128_96_64)

text \<open>
  C2, as stated: the ladder tries its rungs highest quality first. This fails when the
  extractor is constructed with a quality below 128: the configured quality is always
  the first rung, so with quality 64 the rungs are 64, 128, 96, 64, the 64 rung is
  tried before the 128 rung, and when it succeeds it is the only process started.
\<close>

theorem C2_low_quality_counterexample:
  "youtube_quality_options low_quality_extractor 45
     = [(''64'', 300), (''128'', 240), (''96'', 180), (''64'', 120)]
   \<and> \<not> highest_quality_first (youtube_quality_options low_quality_extractor 45)
   \<and> status (fst (extract_youtube_sample low_quality_extractor env_all_succeed
                ''https://youtu.be/abc'' ''voice_samples/a.mp3'' ''creator1'' 45 state0))
       = ''youtube_success_creator1_quality_64_duration_45s''
   \<and> calls (snd (extract_youtube_sample low_quality_extractor env_all_succeed
                ''https://youtu.be/abc'' ''voice_samples/a.mp3'' ''creator1'' 45 state0))
       = [Run (youtube_cmd ''https://youtu.be/abc'' ''voice_samples/a.mp3'' 45 ''64'') 300]"
  by (simp add: eval_defs highest_quality_first_def)

text \<open>
  C2, amended: on every YouTube URL, and on every Twitch URL that holds \<open>/videos/\<close> or
  \<open>/clip/\<close> (a direct VOD or clip URL), the ladder is run on the URL itself; it has four
  rungs, the configured quality first, then 128, 96 and 64, and starts one process per
  rung in that order; this is highest quality first exactly when the configured quality
  is a number of at least 128, as the default 192 is. The first rung whose process
  exits with code 0 and whose output file exists afterwards returns the success result
  carrying that rung's bitrate, and no later rung is started; a rung that times out,
  raises, exits with another code or leaves no file goes on to the next one; when all
  four fail the result is the all-qualities failure.
\<close>

theorem C2_first_successful_rung_wins:
  "(j < 4 \<and> (\<forall>i<j. \<not> rung_succeeds e (n_run st + i) p) \<and> rung_succeeds e (n_run st + j) p
      \<longrightarrow>
      (let st' = st\<lparr>n_run := n_run st + Suc j,
                     calls := calls st @ rung_calls (youtube_cmd url p d)
                                           (take (Suc j) (youtube_quality_options ex d))\<rparr>
       in extract_youtube_sample ex e url p nick d st
            = (success_result e st' ''youtube'' p nick (fst (youtube_quality_options ex d ! j)) d,
               st'))
      \<and> (contains ''/videos/'' vod_url \<or> contains ''/clip/'' vod_url \<longrightarrow>
          (let st' = st\<lparr>n_run := n_run st + Suc j,
                         calls := calls st @ rung_calls (twitch_cmd vod_url p d)
                                               (take (Suc j) (twitch_quality_options ex d))\<rparr>
           in extract_twitch_sample depth ex e vod_url p nick d st
                = (success_result e st' ''twitch'' p nick
                     (fst (twitch_quality_options ex d ! j)) d, st'))))
   \<and> ((\<forall>i<4. \<not> rung_succeeds e (n_run st + i) p)
      \<longrightarrow>
      extract_youtube_sample ex e url p nick d st
        = (failure_result (''youtube_failed_all_qualities_'' @ nick @ ''_duration_''
                           @ str_int d @ ''s''),
           st\<lparr>n_run := n_run st + 4,
               calls := calls st @ rung_calls (youtube_cmd url p d)
                                     (youtube_quality_options ex d)\<rparr>)
      \<and> (contains ''/videos/'' vod_url \<or> contains ''/clip/'' vod_url \<longrightarrow>
          extract_twitch_sample depth ex e vod_url p nick d st
            = (failure_result (''twitch_failed_all_qualities_'' @ nick @ ''_duration_''
                               @ str_int d @ ''s''),
               st\<lparr>n_run := n_run st + 4,
                   calls := calls st @ rung_calls (twitch_cmd vod_url p d)
                                         (twitch_quality_options ex d)\<rparr>)))
   \<and> map fst (youtube_quality_options ex d) = [quality ex, ''128'', ''96'', ''64'']
   \<and> map fst (twitch_quality_options ex d) = [quality ex, ''128'', ''96'', ''64'']
   \<and> (py_int (quality ex) = Some n \<longrightarrow>
        (highest_quality_first (youtube_quality_options ex d) \<longleftrightarrow> 128 \<le> n)
        \<and> (highest_quality_first (twitch_quality_options ex d) \<longleftrightarrow> 128 \<le> n))"
proof -
  have ly: "length (youtube_quality_options ex d) = 4"
    by (simp add: youtube_quality_options_def)
  have lt: "length (twitch_quality_options ex d) = 4"
    by (simp add: twitch_quality_options_def)
  have tw: "contains ''/videos/'' vod_url \<or> contains ''/clip/'' vod_url \<Longrightarrow>
      extract_twitch_sample depth ex e vod_url p nick d st
        = quality_ladder e ''twitch'' (twitch_cmd vod_url p d) (twitch_quality_options ex d)
            p nick d st"
    by auto
  have A: "j < 4 \<and> (\<forall>i<j. \<not> rung_succeeds e (n_run st + i) p)
             \<and> rung_succeeds e (n_run st + j) p \<Longrightarrow>
     quality_ladder e label cmd opts p nick d st =
     (success_result e (st\<lparr>n_run := n_run st + Suc j,
                           calls := calls st @ rung_calls cmd (take (Suc j) opts)\<rparr>)
        label p nick (fst (opts ! j)) d,
      st\<lparr>n_run := n_run st + Suc j, calls := calls st @ rung_calls cmd (take (Suc j) opts)\<rparr>)"
    if "length opts = 4" for label cmd opts
    using ladder_first_success[of j opts e st p label cmd nick d] that by simp
  have B: "(\<forall>i<4. \<not> rung_succeeds e (n_run st + i) p) \<Longrightarrow>
     quality_ladder e label cmd opts p nick d st =
     (failure_result (label @ ''_failed_all_qualities_'' @ nick @ ''_duration_'' @ str_int d @ ''s''),
      st\<lparr>n_run := n_run st + 4, calls := calls st @ rung_calls cmd opts\<rparr>)"
    if "length opts = 4" for label cmd opts
    using ladder_all_fail[of opts e st p label cmd nick d] that by simp
  have H: "py_int (quality ex) = Some n \<longrightarrow>
        (highest_quality_first (youtube_quality_options ex d) \<longleftrightarrow> 128 \<le> n)
        \<and> (highest_quality_first (twitch_quality_options ex d) \<longleftrightarrow> 128 \<le> n)"
    using highest_first_iff[of "quality ex" n]
    by (simp add: youtube_quality_options_def twitch_quality_options_def)
  have M: "map fst (youtube_quality_options ex d) = [quality ex, ''128'', ''96'', ''64'']
           \<and> map fst (twitch_quality_options ex d) = [quality ex, ''128'', ''96'', ''64'']"
    by (simp add: youtube_quality_options_def twitch_quality_options_def)
  have S: "(j < 4 \<and> (\<forall>i<j. \<not> rung_succeeds e (n_run st + i) p)
              \<and> rung_succeeds e (n_run st + j) p
      \<longrightarrow>
      (let st' = st\<lparr>n_run := n_run st + Suc j,
                     calls := calls st @ rung_calls (youtube_cmd url p d)
                                           (take (Suc j) (youtube_quality_options ex d))\<rparr>
       in extract_youtube_sample ex e url p nick d st
            = (success_result e st' ''youtube'' p nick (fst (youtube_quality_options ex d ! j)) d,
               st'))
      \<and> (contains ''/videos/'' vod_url \<or> contains ''/clip/'' vod_url \<longrightarrow>
          (let st' = st\<lparr>n_run := n_run st + Suc j,
                         calls := calls st @ rung_calls (twitch_cmd vod_url p d)
                                               (take (Suc j) (twitch_quality_options ex d))\<rparr>
           in extract_twitch_sample depth ex e vod_url p nick d st
                = (success_result e st' ''twitch'' p nick
                     (fst (twitch_quality_options ex d ! j)) d, st'))))"
    using A[OF ly] A[OF lt] tw by (simp add: extract_youtube_sample_def Let_def)
  have F: "((\<forall>i<4. \<not> rung_succeeds e (n_run st + i) p)
      \<longrightarrow>
      extract_youtube_sample ex e url p nick d st
        = (failure_result (''youtube_failed_all_qualities_'' @ nick @ ''_duration_''
                           @ str_int d @ ''s''),
           st\<lparr>n_run := n_run st + 4,
               calls := calls st @ rung_calls (youtube_cmd url p d)
                                     (youtube_quality_options ex d)\<rparr>)
      \<and> (contains ''/videos/'' vod_url \<or> contains ''/clip/'' vod_url \<longrightarrow>
          extract_twitch_sample depth ex e vod_url p nick d st
            = (failure_result (''twitch_failed_all_qualities_'' @ nick @ ''_duration_''
                               @ str_int d @ ''s''),
               st\<lparr>n_run := n_run st + 4,
                   calls := calls st @ rung_calls (twitch_cmd vod_url p d)
                                         (twitch_quality_options ex d)\<rparr>)))"
    using B[OF ly] B[OF lt] tw by (simp add: extract_youtube_sample_def)
  from S F M H show ?thesis by blast
qed

theorem C2_second_rung_witness:
  "status (fst (extract_youtube_sample default_extractor env_second_rung
             ''https://youtu.be/abc'' ''voice_samples/a.mp3'' ''creator1'' 45 state0))
     = ''youtube_success_creator1_quality_128_duration_45s''
   \<and> status (fst (extract_twitch_sample 5 default_extractor env_second_rung
             ''https://www.twitch.tv/videos/123'' ''voice_samples/a.mp3'' ''creator1'' 45 state0))
     = ''twitch_success_creator1_quality_128_duration_45s''
   \<and> status (fst (extract_youtube_sample default_extractor env_all_timeout
             ''https://youtu.be/abc'' ''voice_samples/a.mp3'' ''creator1'' 45 state0))
     = ''youtube_failed_all_qualities_creator1_duration_45s''
   \<and> highest_quality_first (youtube_quality_options default_extractor 45)
   \<and> highest_quality_first (twitch_quality_options default_extractor 45)"
  using C2_first_successful_rung_wins
    [where j = 1 and e = env_second_rung and st = state0 and p = "''voice_samples/a.mp3''"
       and url = "''https://youtu.be/abc''" and d = 45 and ex = default_extractor
       and nick = "''creator1''" and vod_url = "''https://www.twitch.tv/videos/123''"
       and depth = 5 and n = 192]
    C2_first_successful_rung_wins
    [where j = 0 and e = env_all_timeout and st = state0 and p = "''voice_samples/a.mp3''"
       and url = "''https://youtu.be/abc''" and d = 45 and ex = default_extractor
       and nick = "''creator1''" and vod_url = "''https://www.twitch.tv/videos/123''"
       and depth = 5]
  by (simp add: eval_defs Let_def)

section \<open>Twitch channels\<close>

subsection \<open>What the Twitch extraction runs\<close>

text \<open>
  Whatever the listing queries print, the Twitch extraction starts only listing queries
  and downloads of URLs that hold \<open>/videos/\<close> or \<open>/clip/\<close> or end in \<open>/videos\<close>.
\<close>

lemma ladder_calls:
  "\<exists>new. calls (snd (quality_ladder e label cmd opts p nick d st)) = calls st @ new
         \<and> (\<forall>c\<in>set new. \<exists>q t. c = Run (cmd q) t)"
proof (induction opts arbitrary: st)
  case Nil
  then show ?case by simp
next
  case (Cons a opts)
  obtain q t where a: "a = (q, t)" by (cases a)
  let ?st' = "st\<lparr>n_run := Suc (n_run st), calls := calls st @ [Run (cmd q) t]\<rparr>"
  from Cons.IH[of ?st'] obtain new where
    n: "calls (snd (quality_ladder e label cmd opts p nick d ?st')) = calls st @ [Run (cmd q) t] @ new"
    and ok: "\<forall>c\<in>set new. \<exists>q t. c = Run (cmd q) t" by auto
  show ?case
  proof (cases "run_result_at e (n_run st)")
    case (Completed rc out)
    show ?thesis
    proof (cases "rc = 0 \<and> path_exists e ?st' p")
      case True
      then have "calls (snd (quality_ladder e label cmd (a # opts) p nick d st))
                   = calls st @ [Run (cmd q) t]"
        using Completed by (simp add: a subprocess_run_def)
      then show ?thesis by (intro exI[of _ "[Run (cmd q) t]"]) auto
    next
      case False
      then have "calls (snd (quality_ladder e label cmd (a # opts) p nick d st))
                   = calls st @ (Run (cmd q) t # new)"
        using Completed n by (auto simp add: a subprocess_run_def)
      then show ?thesis using ok by (intro exI[of _ "Run (cmd q) t # new"]) auto
    qed
  next
    case (Raised exn)
    then have "calls (snd (quality_ladder e label cmd (a # opts) p nick d st))
                 = calls st @ (Run (cmd q) t # new)"
      using n by (simp add: a subprocess_run_def)
    then show ?thesis using ok by (intro exI[of _ "Run (cmd q) t # new"]) auto
  qed
qed

lemma grows_refl: "grows p d st st"
  by (simp add: grows_def)

lemma grows_listing:
  assumes "grows p d (st\<lparr>n_run := k, calls := calls st @ [Run (listing_cmd v) 120]\<rparr>) st'"
  shows "grows p d st st'"
proof -
  from assms obtain new where n: "calls st' = (calls st @ [Run (listing_cmd v) 120]) @ new"
    and ok: "\<forall>c\<in>set new. twitch_call_ok p d c" by (auto simp: grows_def)
  have "twitch_call_ok p d (Run (listing_cmd v) 120)" by (auto simp: twitch_call_ok_def)
  with n ok show ?thesis
    unfolding grows_def by (intro exI[of _ "Run (listing_cmd v) 120 # new"]) auto
qed

lemma grows_listing_only:
  "grows p d st (st\<lparr>n_run := k, calls := calls st @ [Run (listing_cmd v) 120]\<rparr>)"
  using grows_listing[OF grows_refl] by simp

lemma extract_grows_from_try:
  assumes "\<And>v st. grows p d st (snd (try_get_recent_twitch_vod depth ex e v p nick d st))"
  shows "grows p d st (snd (extract_twitch_sample depth ex e url p nick d st))"
proof (cases "\<not> contains ''/videos/'' url \<and> \<not> contains ''/clip/'' url
               \<and> \<not> endswith url ''/videos''")
  case True
  with assms show ?thesis by simp
next
  case False
  then have dir: "twitch_direct url" by (simp add: twitch_direct_def)
  from ladder_calls[of e "''twitch''" "twitch_cmd url p d"
      "twitch_quality_options ex d" p nick d st]
  obtain new where n: "calls (snd (quality_ladder e ''twitch'' (twitch_cmd url p d)
      (twitch_quality_options ex d) p nick d st)) = calls st @ new"
    and ok: "\<forall>c\<in>set new. \<exists>q t. c = Run (twitch_cmd url p d q) t" by blast
  from ok dir have "\<forall>c\<in>set new. twitch_call_ok p d c"
    by (auto simp: twitch_call_ok_def)
  with n False show ?thesis by (auto simp: grows_def)
qed

lemma try_get_grows:
  "grows p d st (snd (try_get_recent_twitch_vod depth ex e v p nick d st))"
proof (induction depth arbitrary: v st)
  case 0
  then show ?case by (simp add: grows_refl)
next
  case (Suc depth)
  let ?st1 = "st\<lparr>n_run := Suc (n_run st), calls := calls st @ [Run (listing_cmd v) 120]\<rparr>"
  have only: "grows p d st ?st1" by (rule grows_listing_only)
  have rec: "grows p d st (snd (extract_twitch_sample depth ex e u p nick d ?st1))" for u
    by (rule grows_listing[OF extract_grows_from_try[OF Suc.IH]])
  show ?case
    using only rec
    by (auto simp: subprocess_run_def Let_def
             split: run_result.splits list.splits sum.splits json.splits)
qed

lemma twitch_grows:
  "grows p d st (snd (extract_twitch_sample depth ex e url p nick d st))"
  by (rule extract_grows_from_try[OF try_get_grows])


lemma cmd_differ: "listing_cmd v \<noteq> twitch_cmd u p d q"
  by (simp add: listing_cmd_def twitch_cmd_def)

lemma twitch_cmd_url: "twitch_cmd u p d q = twitch_cmd u' p' d' q' \<Longrightarrow> u = u'"
  by (simp add: twitch_cmd_def)

lemma channel_never_downloaded:
  assumes "\<not> twitch_direct url"
  shows "Run (twitch_cmd url p d q) t
           \<notin> set (new_calls st (snd (extract_twitch_sample depth ex e url p nick d st)))"
proof
  assume a: "Run (twitch_cmd url p d q) t
               \<in> set (new_calls st (snd (extract_twitch_sample depth ex e url p nick d st)))"
  from twitch_grows[of p d st depth ex e url nick] obtain new where
    n: "calls (snd (extract_twitch_sample depth ex e url p nick d st)) = calls st @ new"
    and ok: "\<forall>c\<in>set new. twitch_call_ok p d c" by (auto simp: grows_def)
  from a n have "Run (twitch_cmd url p d q) t \<in> set new" by (simp add: new_calls_def)
  with ok have "twitch_call_ok p d (Run (twitch_cmd url p d q) t)" by blast
  then consider v where "twitch_cmd url p d q = listing_cmd v"
    | u q' where "twitch_direct u" and "twitch_cmd url p d q = twitch_cmd u p d q'"
    by (auto simp: twitch_call_ok_def)
  then show False
  proof cases
    case 1
    then show False using cmd_differ[of v url p d q] by simp
  next
    case 2
    from twitch_cmd_url[OF 2(2)] 2(1) assms show False by simp
  qed
qed

lemma listing_parse_failure:
  assumes "\<not> contains ''/videos/'' url" and "\<not> contains ''/clip/'' url"
    and "\<not> endswith url ''/videos''"
    and "run_result_at e (n_run st) = Completed 0 out" and "strip out \<noteq> []"
    and "nonblank_lines (strip out) = line # rest" and "json_loads e line = Inl perr"
  shows "extract_twitch_sample (Suc depth) ex e url p nick d st
           = (vod_search_failed nick (exception_text perr),
              st\<lparr>n_run := Suc (n_run st),
                 calls := calls st @ [Run (listing_cmd
                            (rstrip_by (\<lambda>c. c = CHR ''/'') url @ ''/videos'')) 120]\<rparr>)"
  using assms by (simp add: subprocess_run_def)

subsection \<open>The videos page of a channel\<close>

text \<open>
  A URL that ends in \<open>/videos\<close> and holds neither \<open>/videos/\<close> nor \<open>/clip/\<close> passes the
  first test of \<open>_extract_twitch_sample\<close> (commented \<open>This is a channel URL\<close>), fails the
  second, and so reaches the block commented \<open>Direct VOD or clip URL\<close>: the ladder is
  run on the page itself and no listing query is made. The statements on channel URLs
  below leave such URLs out.
\<close>

lemma twitch_videos_page_goes_to_ladder:
  "\<not> contains ''/videos/'' ''https://www.twitch.tv/somechannel/videos''
   \<and> \<not> contains ''/clip/'' ''https://www.twitch.tv/somechannel/videos''
   \<and> status (fst (extract_twitch_sample 5 default_extractor env_second_rung
        ''https://www.twitch.tv/somechannel/videos'' ''voice_samples/a.mp3'' ''somechannel'' 45 state0))
      = ''twitch_success_somechannel_quality_128_duration_45s''
   \<and> calls (snd (extract_twitch_sample 5 default_extractor env_second_rung
        ''https://www.twitch.tv/somechannel/videos'' ''voice_samples/a.mp3'' ''somechannel'' 45 state0))
      = rung_calls (twitch_cmd ''https://www.twitch.tv/somechannel/videos'' ''voice_samples/a.mp3'' 45)
          [(''192'', 400), (''128'', 350)]"
  by (simp add: eval_defs)

subsection \<open>Channel URLs\<close>

text \<open>
  C5, as stated: when parsing the listing fails, the extraction of a channel-style URL
  fails with the no-recent-content failure. In the code \<open>json.loads\<close> is inside the
  \<open>try\<close> block of \<open>_try_get_recent_twitch_vod\<close>, whose \<open>except\<close> branch returns a status
  of its own: on a listing that prints \<open>not json\<close> the result is
  \<open>twitch_vod_search_failed_somechannel: Expecting value\<close>, not
  \<open>no_recent_vods_found_for_somechannel\<close>.
\<close>

theorem C5_parse_failure_counterexample:
  "\<not> contains ''/videos/'' ''https://www.twitch.tv/somechannel''
   \<and> \<not> contains ''/clip/'' ''https://www.twitch.tv/somechannel''
   \<and> \<not> endswith ''https://www.twitch.tv/somechannel'' ''/videos''
   \<and> json_loads (env_probe_prints ''not json'') ''not json''
       = Inl (OtherException ''Expecting value'')
   \<and> extract_twitch_sample 5 default_extractor (env_probe_prints ''not json'')
        ''https://www.twitch.tv/somechannel'' ''voice_samples/a.mp3'' ''somechannel'' 45 state0
      = (failure_result ''twitch_vod_search_failed_somechannel: Expecting value'',
         \<lparr>n_run = 1, n_time = 0,
          calls = [Run (listing_cmd ''https://www.twitch.tv/somechannel/videos'') 120]\<rparr>)
   \<and> status (no_recent_vods ''somechannel'') = ''no_recent_vods_found_for_somechannel''"
  using listing_parse_failure
    [where url = "''https://www.twitch.tv/somechannel''" and st = state0 and depth = 4
       and ex = default_extractor and e = "env_probe_prints ''not json''"
       and p = "''voice_samples/a.mp3''" and nick = "''somechannel''" and d = 45
       and out = "''not json'' @ [CHR 0x0A]" and line = "''not json''" and rest = "[]"
       and perr = "OtherException ''Expecting value''"]
  by (simp add: eval_defs)

text \<open>
  C5, amended: for a Twitch URL that holds neither \<open>/videos/\<close> nor \<open>/clip/\<close> and does not
  end in \<open>/videos\<close>, no download of this URL itself is ever started, whatever the
  processes do. The extraction runs one listing query (\<open>--playlist-end 1\<close>, 120 seconds)
  on the URL without trailing slashes followed by \<open>/videos\<close>, and then
  \<^item> when the query times out or raises, the result is the failure
    \<open>twitch_vod_search_failed\<close> with the text of the exception;
  \<^item> when the query exits with a nonzero code, or prints nothing but white space, the
    result is the failure \<open>no_recent_vods_found\<close>;
  \<^item> when \<open>json.loads\<close> raises on the first non-blank line, the result is
    \<open>twitch_vod_search_failed\<close> with the text of that exception;
  \<^item> when the line parses to something that is not an object, or to an object whose
    title is neither a string nor a list (so that \<open>title[:30]\<close> raises), the result is
    \<open>twitch_vod_search_failed\<close>;
  \<^item> otherwise, when \<open>webpage_url or url\<close> of the record is false, the result is
    \<open>no_recent_vods_found\<close>;
  \<^item> when it is a non-empty string, the result is that of the standard extraction on
    this string, started after the listing query with the same output path, name and
    duration;
  \<^item> when it is true and not a string, the result is a failure,
    \<open>twitch_vod_search_failed\<close> or \<open>twitch_failed_all_qualities\<close>.

  In every case but the one that goes on with the standard extraction, nothing but the
  listing query has run. When the interpreter allows no further nested call, the result
  is \<open>twitch_vod_search_failed\<close> and nothing is run.
\<close>

theorem C5_channel_resolution:
  assumes "\<not> contains ''/videos/'' url" and "\<not> contains ''/clip/'' url"
    and "\<not> endswith url ''/videos''"
  shows
   "(let st1 = st\<lparr>n_run := Suc (n_run st),
                    calls := calls st @ [Run (listing_cmd
                               (rstrip_by (\<lambda>c. c = CHR ''/'') url @ ''/videos'')) 120]\<rparr>;
         r = extract_twitch_sample (Suc depth) ex e url p nick d st
     in (run_result_at e (n_run st) = Raised exn
           \<longrightarrow> r = (vod_search_failed nick (exception_text exn), st1))
      \<and> (run_result_at e (n_run st) = Completed rc out
          \<and> (rc \<noteq> 0 \<or> strip out = [] \<or> nonblank_lines (strip out) = [])
           \<longrightarrow> r = (no_recent_vods nick, st1))
      \<and> (run_result_at e (n_run st) = Completed 0 out \<and> strip out \<noteq> []
          \<and> nonblank_lines (strip out) = line # rest
           \<longrightarrow> (json_loads e line = Inl perr
                  \<longrightarrow> r = (vod_search_failed nick (exception_text perr), st1))
              \<and> (json_loads e line = Inr v \<and> (\<forall>kv. v \<noteq> JObj kv)
                  \<longrightarrow> r = (vod_search_failed nick (interp_text e (NoAttribute v ''get'')),
                           st1))
              \<and> (json_loads e line = Inr (JObj kv)
                  \<longrightarrow> (\<not> sliceable (record_title kv)
                         \<longrightarrow> r = (vod_search_failed nick
                                    (interp_text e (NotSubscriptable (record_title kv))), st1))
                     \<and> (sliceable (record_title kv) \<and> \<not> json_truthy (record_url kv)
                         \<longrightarrow> r = (no_recent_vods nick, st1))
                     \<and> (sliceable (record_title kv) \<and> record_url kv = JStr u \<and> u \<noteq> []
                         \<longrightarrow> r = extract_twitch_sample depth ex e u p nick d st1)
                     \<and> (sliceable (record_title kv) \<and> json_truthy (record_url kv)
                         \<and> (\<forall>u. record_url kv \<noteq> JStr u)
                         \<longrightarrow> snd r = st1
                             \<and> (fst r = twitch_failed_all nick d
                                 \<or> (\<exists>m. fst r = vod_search_failed nick m))))))
    \<and> extract_twitch_sample 0 ex e url p nick d st
        = (vod_search_failed nick (interp_text e RecursionLimit), st)
    \<and> (\<forall>k q t. Run (twitch_cmd url p d q) t
                  \<notin> set (new_calls st (snd (extract_twitch_sample k ex e url p nick d st))))"
proof -
  have nd: "\<not> twitch_direct url" using assms by (simp add: twitch_direct_def)
  have U: "\<forall>k q t. Run (twitch_cmd url p d q) t
                  \<notin> set (new_calls st (snd (extract_twitch_sample k ex e url p nick d st)))"
    using channel_never_downloaded[OF nd] by blast
  have Z: "extract_twitch_sample 0 ex e url p nick d st
        = (vod_search_failed nick (interp_text e RecursionLimit), st)"
    using assms by simp
  have C: "(let st1 = st\<lparr>n_run := Suc (n_run st),
                    calls := calls st @ [Run (listing_cmd
                               (rstrip_by (\<lambda>c. c = CHR ''/'') url @ ''/videos'')) 120]\<rparr>;
         r = extract_twitch_sample (Suc depth) ex e url p nick d st
     in (run_result_at e (n_run st) = Raised exn
           \<longrightarrow> r = (vod_search_failed nick (exception_text exn), st1))
      \<and> (run_result_at e (n_run st) = Completed rc out
          \<and> (rc \<noteq> 0 \<or> strip out = [] \<or> nonblank_lines (strip out) = [])
           \<longrightarrow> r = (no_recent_vods nick, st1))
      \<and> (run_result_at e (n_run st) = Completed 0 out \<and> strip out \<noteq> []
          \<and> nonblank_lines (strip out) = line # rest
           \<longrightarrow> (json_loads e line = Inl perr
                  \<longrightarrow> r = (vod_search_failed nick (exception_text perr), st1))
              \<and> (json_loads e line = Inr v \<and> (\<forall>kv. v \<noteq> JObj kv)
                  \<longrightarrow> r = (vod_search_failed nick (interp_text e (NoAttribute v ''get'')),
                           st1))
              \<and> (json_loads e line = Inr (JObj kv)
                  \<longrightarrow> (\<not> sliceable (record_title kv)
                         \<longrightarrow> r = (vod_search_failed nick
                                    (interp_text e (NotSubscriptable (record_title kv))), st1))
                     \<and> (sliceable (record_title kv) \<and> \<not> json_truthy (record_url kv)
                         \<longrightarrow> r = (no_recent_vods nick, st1))
                     \<and> (sliceable (record_title kv) \<and> record_url kv = JStr u \<and> u \<noteq> []
                         \<longrightarrow> r = extract_twitch_sample depth ex e u p nick d st1)
                     \<and> (sliceable (record_title kv) \<and> json_truthy (record_url kv)
                         \<and> (\<forall>u. record_url kv \<noteq> JStr u)
                         \<longrightarrow> snd r = st1
                             \<and> (fst r = twitch_failed_all nick d
                                 \<or> (\<exists>m. fst r = vod_search_failed nick m))))))"
    using assms
    by (auto simp: Let_def subprocess_run_def record_url_def record_title_def json_truthy_def
             split: json.splits)
  from C Z U show ?thesis by blast
qed

theorem C5_channel_resolution_witness:
  "status (fst (extract_twitch_sample 5 default_extractor env_channel_vod
      ''https://www.twitch.tv/somechannel/'' ''voice_samples/a.mp3'' ''somechannel'' 45 state0))
     = ''twitch_success_somechannel_quality_192_duration_45s''
   \<and> calls (snd (extract_twitch_sample 5 default_extractor env_channel_vod
      ''https://www.twitch.tv/somechannel/'' ''voice_samples/a.mp3'' ''somechannel'' 45 state0))
     = [Run (listing_cmd ''https://www.twitch.tv/somechannel/videos'') 120,
        Run (twitch_cmd ''https://www.twitch.tv/videos/123'' ''voice_samples/a.mp3'' 45 ''192'') 400]
   \<and> extract_twitch_sample 5 default_extractor env_all_timeout
      ''https://www.twitch.tv/somechannel/'' ''voice_samples/a.mp3'' ''somechannel'' 45 state0
     = (failure_result ''twitch_vod_search_failed_somechannel: timed out'',
        \<lparr>n_run = 1, n_time = 0,
         calls = [Run (listing_cmd ''https://www.twitch.tv/somechannel/videos'') 120]\<rparr>)"
  using C5_channel_resolution
    [where url = "''https://www.twitch.tv/somechannel/''" and st = state0 and depth = 4
       and ex = default_extractor and e = env_channel_vod and p = "''voice_samples/a.mp3''"
       and nick = "''somechannel''" and d = 45 and out = "''{...}'' @ [CHR 0x0A]"
       and line = "''{...}''" and rest = "[]"
       and kv = "[(''webpage_url'', JStr ''https://www.twitch.tv/videos/123''),
                  (''title'', JStr ''Stream'')]"
       and u = "''https://www.twitch.tv/videos/123''"]
    C5_channel_resolution
    [where url = "''https://www.twitch.tv/somechannel/''" and st = state0 and depth = 4
       and ex = default_extractor and e = env_all_timeout and p = "''voice_samples/a.mp3''"
       and nick = "''somechannel''" and d = 45 and exn = "TimeoutExpired ''timed out''"]
  by (simp add: eval_defs Let_def record_url_def record_title_def)

section \<open>Usernames\<close>

text \<open>
  C7. When a username longer than two characters is extracted from the URL, username
  resolution returns it, whatever the identity fields of the record hold, and reads
  neither the hash nor the clock.
\<close>

theorem C7_url_username_first:
  assumes "extract_username_from_url (Some url) = Some u" and "length u > 2"
  shows "extract_best_username e ld (Some url) st = (u, st)"
  using assms by (simp add: extract_best_username_def)

theorem C7_url_username_witness:
  "extract_username_from_url (Some ''https://youtube.com/@creator1/watch?v=abc'') = Some ''creator1''
   \<and> username_from_fields (entries link_creator)
         [''username'', ''screen_name'', ''user_name'', ''handle''] = Some ''someone_else''
   \<and> extract_best_username env_idle link_creator (link_url link_creator) state0
       = (''creator1'', state0)"
  using C7_url_username_first[where url = "''https://youtube.com/@creator1/watch?v=abc''" and u = "''creator1''"
             and e = env_idle and ld = link_creator and st = state0]
  by (simp add: eval_defs Let_def)

section \<open>File names\<close>

lemma alphabet_is_word: "c \<in> out_alphabet \<Longrightarrow> is_word c"
  by (auto simp: out_alphabet_def is_word_def)

lemma alphabet_is_ascii_word: "c \<in> out_alphabet \<Longrightarrow> is_ascii_word c"
  by (auto simp: out_alphabet_def is_ascii_word_def)

lemma alphabet_not_space: "c \<in> out_alphabet \<Longrightarrow> \<not> isspace c"
  by (auto simp: out_alphabet_def isspace_def ascii_lowercase_def ascii_digits_def)

lemma upper_lower_disjoint: "l \<in> set ascii_lowercase \<Longrightarrow> l \<notin> set ascii_uppercase"
  by (auto simp: ascii_lowercase_def ascii_uppercase_def)

lemma alphabet_not_upper: "c \<in> out_alphabet \<Longrightarrow> c \<notin> set ascii_uppercase"
  by (auto simp: out_alphabet_def ascii_lowercase_def ascii_digits_def ascii_uppercase_def)

lemma map_of_upper_None:
  "map_of (zip ascii_uppercase ascii_lowercase) c = None \<longleftrightarrow> c \<notin> set ascii_uppercase"
proof -
  have "length ascii_uppercase = length ascii_lowercase"
    by (simp add: ascii_uppercase_def ascii_lowercase_def)
  then have "map fst (zip ascii_uppercase ascii_lowercase) = ascii_uppercase" by simp
  then show ?thesis by (metis map_of_eq_None_iff set_map)
qed

lemma upper_code: "u \<in> set ascii_uppercase \<Longrightarrow> (of_char u :: nat) < 100"
  by (auto simp: ascii_uppercase_def)

lemma alphabet_code: "c \<in> out_alphabet \<Longrightarrow> (of_char c :: nat) < 128"
  by (auto simp: out_alphabet_def ascii_lowercase_def ascii_digits_def)

lemma alphabet_lower: "c \<in> out_alphabet \<Longrightarrow> lower_char c = c"
  using alphabet_not_upper[of c] alphabet_code[of c] map_of_upper_None[of c]
  by (simp add: lower_char_def Let_def)

lemma ascii_word_not_upper:
  "is_ascii_word c \<Longrightarrow> c \<notin> set ascii_uppercase \<Longrightarrow> c \<in> out_alphabet"
  by (auto simp: out_alphabet_def is_ascii_word_def)

lemma lower_char_not_upper: "lower_char c \<notin> set ascii_uppercase"
proof (cases "map_of (zip ascii_uppercase ascii_lowercase) c")
  case (Some l)
  then have "l \<in> set ascii_lowercase"
    by (meson map_of_SomeD set_zip_rightD)
  then show ?thesis using Some upper_lower_disjoint by (simp add: lower_char_def)
next
  case None
  then have nu: "c \<notin> set ascii_uppercase" by (simp add: map_of_upper_None)
  show ?thesis
  proof (cases "0xC0 \<le> (of_char c :: nat) \<and> (of_char c :: nat) \<le> 0xDE
                \<and> (of_char c :: nat) \<noteq> 0xD7")
    case True
    have "(of_char (char_of (of_char c + 32 :: nat)) :: nat) \<ge> 100"
      using True by simp
    then have "char_of (of_char c + 32 :: nat) \<notin> set ascii_uppercase"
      using upper_code by (metis not_le)
    then show ?thesis using None True by (simp add: lower_char_def Let_def)
  next
    case False
    then show ?thesis using None nu by (auto simp add: lower_char_def Let_def)
  qed
qed

lemma sub_runs_id: "\<forall>c\<in>set s. \<not> p c \<Longrightarrow> sub_runs p x s = s"
  by (induction s) auto

lemma sub_runs_underscore_id:
  "\<not> contains ''__'' s \<Longrightarrow> sub_runs (\<lambda>c. c = CHR ''_'') (CHR ''_'') s = s"
proof (induction s)
  case Nil
  then show ?case by simp
next
  case (Cons c cs)
  then have ih: "sub_runs (\<lambda>c. c = CHR ''_'') (CHR ''_'') cs = cs" by simp
  show ?case
  proof (cases "c = CHR ''_''")
    case True
    with Cons.prems have "cs = [] \<or> hd cs \<noteq> CHR ''_''" by (cases cs) auto
    then have "dropWhile (\<lambda>c. c = CHR ''_'') cs = cs" by (cases cs) auto
    with True ih show ?thesis by simp
  next
    case False
    with ih show ?thesis by simp
  qed
qed

lemma set_sub_runs: "set (sub_runs p x s) \<subseteq> insert x (set s)"
proof (induction p x s rule: sub_runs.induct)
  case (1 p r)
  then show ?case by simp
next
  case (2 p r c cs)
  have "set (dropWhile p cs) \<subseteq> set cs" by (auto dest: set_dropWhileD)
  with 2 show ?case by auto
qed

lemma set_strip_char: "set (strip_char x s) \<subseteq> set s"
  by (auto simp: strip_char_def rstrip_by_def lstrip_by_def dest!: set_dropWhileD)

lemma clean_alphabet: "set (clean_filename s) \<subseteq> out_alphabet"
proof
  fix c assume "c \<in> set (clean_filename s)"
  define f2 where "f2 = lower (filter (\<lambda>c. is_word c \<or> isspace c \<or> c = CHR ''-'') s)"
  define f4 where "f4 = strip_char (CHR ''_'') (sub_runs (\<lambda>c. c = CHR ''_'') (CHR ''_'')
                          (sub_runs isspace (CHR ''_'') f2))"
  from \<open>c \<in> set (clean_filename s)\<close> have "c \<in> set (filter is_ascii_word f4)"
    by (auto simp: clean_filename_def Let_def f4_def f2_def dest: in_set_takeD split: if_splits)
  then have w: "is_ascii_word c" and m: "c \<in> set f4" by auto
  from m have "c \<in> set (sub_runs (\<lambda>c. c = CHR ''_'') (CHR ''_'')
                          (sub_runs isspace (CHR ''_'') f2))"
    unfolding f4_def by (rule subsetD[OF set_strip_char])
  then have "c \<in> insert (CHR ''_'') (set (sub_runs isspace (CHR ''_'') f2))"
    by (rule subsetD[OF set_sub_runs])
  then have "c \<in> insert (CHR ''_'') (set f2)"
    using set_sub_runs[of isspace "CHR ''_''" f2] by auto
  then have "c \<notin> set ascii_uppercase"
    using lower_char_not_upper by (auto simp: f2_def lower_def ascii_uppercase_def)
  with w show "c \<in> out_alphabet" by (rule ascii_word_not_upper)
qed

lemma clean_length: "length (clean_filename s) \<le> 20"
  by (simp add: clean_filename_def Let_def)

lemma set_str_nat: "set (str_nat n) \<subseteq> set ascii_digits"
proof (induction n rule: str_nat.induct)
  case (1 n)
  have "length ascii_digits = 10" by (simp add: ascii_digits_def)
  then have d: "digit_char k \<in> set ascii_digits" if "k < 10" for k
    using that nth_mem[of k ascii_digits] by (simp add: digit_char_def)
  show ?case
  proof (cases "n < 10")
    case True
    then show ?thesis using d[of n] by (subst str_nat.simps) simp
  next
    case False
    then show ?thesis using 1 d[of "n mod 10"] by (subst str_nat.simps) simp
  qed
qed

lemma length_str_nat: "0 < k \<Longrightarrow> n < 10 ^ k \<Longrightarrow> length (str_nat n) \<le> k"
proof (induction k arbitrary: n)
  case 0
  then show ?case by simp
next
  case (Suc k)
  show ?case
  proof (cases "n < 10")
    case True
    then show ?thesis by (subst str_nat.simps) simp
  next
    case False
    then have k: "0 < k" using Suc.prems by (cases k) auto
    have "n div 10 < 10 ^ k" using Suc.prems by (simp add: less_mult_imp_div_less mult.commute)
    from Suc.IH[OF k this] False show ?thesis by (subst str_nat.simps) simp
  qed
qed

lemma length_str_nat_pos: "0 < length (str_nat n)"
  by (subst str_nat.simps) simp

lemma user_id_shape:
  "set (''user_'' @ str_int (t mod 10000)) \<subseteq> out_alphabet
   \<and> 2 \<le> length (''user_'' @ str_int (t mod 10000))
   \<and> length (''user_'' @ str_int (t mod 10000)) \<le> 20"
proof -
  have nn: "0 \<le> t mod 10000" and lt: "t mod 10000 < 10000" by simp_all
  then have s: "str_int (t mod 10000) = str_nat (nat (t mod 10000))"
    by (simp add: str_int_def)
  have "nat (t mod 10000) < 10 ^ 4" using lt nn by simp
  then have l: "length (str_nat (nat (t mod 10000))) \<le> 4"
    using length_str_nat[of 4] by simp
  have "set (str_nat (nat (t mod 10000))) \<subseteq> out_alphabet"
    using set_str_nat by (auto simp: out_alphabet_def)
  moreover have "set ''user_'' \<subseteq> out_alphabet"
    by (simp add: out_alphabet_def ascii_lowercase_def)
  ultimately show ?thesis using l s by simp
qed

lemma sanitize_shape:
  "set (fst (sanitize_filename e s st)) \<subseteq> out_alphabet
   \<and> 2 \<le> length (fst (sanitize_filename e s st))
   \<and> length (fst (sanitize_filename e s st)) \<le> 20"
  using user_id_shape[of "time_at e (n_time st)"] clean_alphabet[of s] clean_length[of s]
  by (auto simp: sanitize_filename_def time_time_def Let_def)

lemma strip_by_id:
  assumes "s \<noteq> []" and "\<not> P (hd s)" and "\<not> P (last s)"
  shows "rstrip_by P (lstrip_by P s) = s"
proof -
  have "dropWhile P s = s" using assms by (cases s) auto
  moreover have "dropWhile P (rev s) = rev s"
    using assms by (cases "rev s") (auto simp: hd_rev[symmetric])
  ultimately show ?thesis by (simp add: rstrip_by_def lstrip_by_def)
qed

lemma not_startswith_hd: "s \<noteq> [] \<Longrightarrow> \<not> startswith s [c] \<Longrightarrow> hd s \<noteq> c"
  by (cases s) (auto simp: startswith_def)

lemma not_endswith_last: "s \<noteq> [] \<Longrightarrow> \<not> endswith s [c] \<Longrightarrow> last s \<noteq> c"
proof (induction s rule: rev_induct)
  case Nil
  then show ?case by simp
next
  case (snoc x xs)
  then show ?case by (auto simp: endswith_def)
qed

lemma sanitize_fixpoint:
  assumes alph: "set r \<subseteq> out_alphabet" and len: "2 \<le> length r" "length r \<le> 20"
    and nodouble: "\<not> contains ''__'' r"
    and nostart: "\<not> startswith r ''_''" and noend: "\<not> endswith r ''_''"
    and noplace: "r \<notin> set [''nan'', ''none'', ''null'']"
  shows "sanitize_filename e r st = (r, st)"
proof -
  from len have ne: "r \<noteq> []" by auto
  then have hdl: "hd r \<in> out_alphabet" "last r \<in> out_alphabet" using alph by auto
  have f1: "filter (\<lambda>c. is_word c \<or> isspace c \<or> c = CHR ''-'') r = r"
    using alph alphabet_is_word by (auto simp: filter_id_conv)
  have f2: "lower r = r"
    unfolding lower_def using alph alphabet_lower by (auto intro: map_idI)
  have f3: "sub_runs isspace (CHR ''_'') r = r"
    using alph alphabet_not_space by (auto intro: sub_runs_id)
  have f4: "sub_runs (\<lambda>c. c = CHR ''_'') (CHR ''_'') r = r"
    using nodouble by (rule sub_runs_underscore_id)
  have f4': "strip_char (CHR ''_'') r = r"
    unfolding strip_char_def
    using ne not_startswith_hd[OF ne nostart] not_endswith_last[OF ne noend]
    by (intro strip_by_id) auto
  have f5: "filter is_ascii_word r = r"
    using alph alphabet_is_ascii_word by (auto simp: filter_id_conv)
  have st: "strip r = r"
    unfolding strip_def using ne hdl alphabet_not_space by (intro strip_by_id) auto
  have clean: "clean_filename r = r"
    using len by (simp add: clean_filename_def Let_def f1 f2 f3 f4 f4' f5)
  have "\<not> is_empty_value (PStr r)"
    using noplace ne by (simp add: is_empty_value_def py_str_def f2 st)
  then show ?thesis using ne len by (simp add: sanitize_filename_def clean Let_def)
qed

text \<open>
  C8, as stated: sanitizing a sanitized name returns it unchanged, for every string.
  This fails: hyphens are removed after the runs of underscores have been collapsed,
  so \<open>a_-_b\<close> is sanitized to \<open>a__b\<close>, which is sanitized to \<open>a_b\<close>.
\<close>

theorem C8_hyphen_counterexample:
  "fst (sanitize_filename env_idle ''a_-_b'' state0) = ''a__b''
   \<and> fst (sanitize_filename env_idle
             (fst (sanitize_filename env_idle ''a_-_b'' state0)) state0) = ''a_b''"
  by (simp add: eval_defs Let_def)

text \<open>
  C8, amended: when the sanitized name of a string holds no two underscores in a row,
  neither starts nor ends with an underscore, and is none of the placeholder words
  \<open>nan\<close>, \<open>none\<close> and \<open>null\<close>, sanitizing it again returns it unchanged, and does
  not read the clock.
\<close>

theorem C8_clean_name_is_fixpoint:
  assumes "r = fst (sanitize_filename e s st)"
    and "\<not> contains ''__'' r" and "\<not> startswith r ''_''" and "\<not> endswith r ''_''"
    and "r \<notin> set [''nan'', ''none'', ''null'']"
  shows "sanitize_filename e' r st' = (r, st')"
  using assms sanitize_shape[of e s st] by (intro sanitize_fixpoint) auto

theorem C8_clean_name_witness:
  "fst (sanitize_filename env_idle ''Cool Guy 99!'' state0) = ''cool_guy_99''
   \<and> sanitize_filename env_idle ''cool_guy_99'' state0 = (''cool_guy_99'', state0)"
  using C8_clean_name_is_fixpoint[where e = env_idle and s = "''Cool Guy 99!''"
      and st = state0 and r = "''cool_guy_99''" and e' = env_idle
      and st' = state0]
  by (simp add: eval_defs Let_def)

section \<open>Properties of the batch\<close>

lemma process_link_skipped:
  "\<not> str_truthy (link_url ld) \<Longrightarrow> \<exists>st'. process_link ex e ld st = Inr (ld, False, st')"
  by (simp add: process_link_def split: prod.splits)

lemma safe_platform_lowers:
  "lowers v \<longleftrightarrow> (\<exists>s. safe_platform_of e v = Inr s)"
  by (cases v) (auto simp: lowers_def safe_platform_of_def)

lemma process_link_returns:
  assumes "str_truthy (link_url ld) \<longrightarrow> lowers (platform_type ld)"
  shows "\<exists>ld' ok st'. process_link ex e ld st = Inr (ld', ok, st')"
proof (cases "str_truthy (link_url ld)")
  case True
  with assms obtain s where "safe_platform_of e (platform_type ld) = Inr s"
    using safe_platform_lowers[of "platform_type ld" e] by auto
  with True show ?thesis
    by (simp add: process_link_def Let_def split: prod.splits)
next
  case False
  from process_link_skipped[OF this, of ex e st] show ?thesis by blast
qed

lemma process_link_raises:
  assumes "process_link ex e ld st = Inl exn"
  shows "str_truthy (link_url ld) \<and> \<not> lowers (platform_type ld)"
proof (rule ccontr)
  assume "\<not> (str_truthy (link_url ld) \<and> \<not> lowers (platform_type ld))"
  then have "str_truthy (link_url ld) \<longrightarrow> lowers (platform_type ld)" by blast
  from process_link_returns[OF this, of ex e st] assms show False by auto
qed

lemma process_link_processed:
  assumes "str_truthy (link_url ld)"
    and "process_link ex e ld st = Inr (ld', ok, st')"
  shows "entries ld' ''sample_extracted'' = Some (PBool ok)"
    and "\<exists>s. entries ld' ''extraction_status'' = Some (PStr s)"
    and "entries ld' ''sample_quality'' = Some (PStr (quality ex))"
    and "link_url ld' = link_url ld"
    and "platform_type ld' = platform_type ld"
    and "\<forall>k. k \<notin> set output_keys \<longrightarrow> entries ld' k = entries ld k"
  using assms
  by (auto simp: process_link_def update_link_def Let_def output_keys_def
           split: prod.splits sum.splits)

lemma process_link_appended:
  assumes "process_link ex e ld st = Inr (ld', ok, st')"
  shows "ok = marked_extracted ld'"
proof (cases "str_truthy (link_url ld)")
  case True
  from process_link_processed(1)[OF True assms] process_link_processed(4)[OF True assms]
  show ?thesis using True by (simp add: marked_extracted_def)
next
  case False
  then show ?thesis using process_link_skipped[OF False, of ex e st] assms
    by (auto simp: marked_extracted_def)
qed

lemma process_links_rel:
  "process_links ex e links st = Inr (links', extracted, st') \<Longrightarrow>
   list_all2 (\<lambda>ld ld'. \<exists>sti ok stj. process_link ex e ld sti = Inr (ld', ok, stj)) links links'
   \<and> extracted = filter marked_extracted links'"
proof (induction links arbitrary: st links' extracted st')
  case Nil
  then show ?case by simp
next
  case (Cons ld rest)
  from Cons.prems obtain ld1 ok st1 where p: "process_link ex e ld st = Inr (ld1, ok, st1)"
    by (cases "process_link ex e ld st") auto
  from Cons.prems p obtain lds ext st2 where r: "process_links ex e rest st1 = Inr (lds, ext, st2)"
    by (cases "process_links ex e rest st1") auto
  from Cons.IH[OF r]
  have ih: "list_all2 (\<lambda>ld ld'. \<exists>sti ok stj. process_link ex e ld sti = Inr (ld', ok, stj)) rest lds"
    and ex: "ext = filter marked_extracted lds" by auto
  from process_link_appended[OF p] have ok: "ok = marked_extracted ld1" .
  from p have "\<exists>sti ok stj. process_link ex e ld sti = Inr (ld1, ok, stj)" by blast
  with Cons.prems p r ih ex ok show ?case by auto
qed

lemma process_links_returns:
  "\<forall>ld\<in>set links. str_truthy (link_url ld) \<longrightarrow> lowers (platform_type ld) \<Longrightarrow>
   \<exists>links' extracted st'. process_links ex e links st = Inr (links', extracted, st')"
proof (induction links arbitrary: st)
  case Nil
  then show ?case by simp
next
  case (Cons ld rest)
  from Cons.prems have "str_truthy (link_url ld) \<longrightarrow> lowers (platform_type ld)" by simp
  from process_link_returns[OF this, of ex e st]
  obtain ld1 ok st1 where p: "process_link ex e ld st = Inr (ld1, ok, st1)" by blast
  from Cons.prems have "\<forall>ld\<in>set rest. str_truthy (link_url ld) \<longrightarrow> lowers (platform_type ld)"
    by simp
  from Cons.IH[OF this, of st1]
  obtain lds ext st2 where r: "process_links ex e rest st1 = Inr (lds, ext, st2)" by blast
  from p r show ?case by simp
qed

lemma process_links_raises:
  assumes "process_links ex e links st = Inl exn"
  shows "\<exists>ld\<in>set links. str_truthy (link_url ld) \<and> \<not> lowers (platform_type ld)"
proof (rule ccontr)
  assume "\<not> (\<exists>ld\<in>set links. str_truthy (link_url ld) \<and> \<not> lowers (platform_type ld))"
  then have "\<forall>ld\<in>set links. str_truthy (link_url ld) \<longrightarrow> lowers (platform_type ld)" by blast
  from process_links_returns[OF this, of ex e st] assms show False by auto
qed

lemma voice_samples_are_process_links:
  "extract_voice_samples ex e links st = process_links ex e links st"
  by (cases links) (simp_all add: extract_voice_samples_def)

lemma run_creator:
  "process_link default_extractor env_batch link_creator state0
     = Inr (creator_done, True, state_after_creator)"
  by (simp add: eval_defs creator_done_def creator_result_def state_after_creator_def Let_def)

lemma run_vimeo:
  "process_link default_extractor env_batch link_vimeo state_after_creator
     = Inr (vimeo_done, False, state_after_vimeo)"
  by (simp add: eval_defs vimeo_done_def state_after_creator_def state_after_vimeo_def Let_def)

lemma run_no_url:
  "process_link default_extractor env_batch link_no_url state_after_vimeo
     = Inr (link_no_url, False, state_after_vimeo\<lparr>n_time := 3\<rparr>)"
  by (simp add: eval_defs state_after_creator_def state_after_vimeo_def Let_def)

lemma run_batch:
  "extract_voice_samples default_extractor env_batch [link_creator, link_vimeo, link_no_url] state0
     = Inr ([creator_done, vimeo_done, link_no_url], [creator_done],
            state_after_vimeo\<lparr>n_time := 3\<rparr>)"
  by (simp add: extract_voice_samples_def run_creator run_vimeo run_no_url)

lemma batch_platforms_lower:
  "\<forall>ld\<in>set [link_creator, link_vimeo, link_no_url].
      str_truthy (link_url ld) \<longrightarrow> lowers (platform_type ld)"
  by (simp add: link_creator_def link_vimeo_def link_no_url_def lowers_def)

lemma voice_samples_facts:
  assumes "extract_voice_samples ex e links st = Inr (links', extracted, st')"
  shows "length links' = length links"
    and "extracted = filter marked_extracted links'"
    and "i < length links \<Longrightarrow>
           \<exists>sti ok stj. process_link ex e (links ! i) sti = Inr (links' ! i, ok, stj)"
  using process_links_rel[of ex e links st links' extracted st'] assms
  by (auto simp: list_all2_conv_all_nth voice_samples_are_process_links)

subsection \<open>A platform type without \<open>lower\<close>\<close>

text \<open>
  \<open>platform.lower()\<close> is evaluated outside every \<open>try\<close> block. On a record whose
  platform type is true and not a string (here a NaN, as a table with an empty cell
  gives) it raises, and the exception leaves \<open>extract_voice_samples\<close>: the call returns
  nothing, for this link and for the links after it. The statements on the batch below
  are about lists without such a record.
\<close>

lemma nan_platform_aborts:
  "extract_voice_samples default_extractor env_idle [link_nan_platform, link_creator] state0
     = Inl (OtherException ''error'')"
  by (simp add: extract_voice_samples_def eval_defs Let_def)

subsection \<open>Outcomes\<close>

text \<open>
  C3, as stated: every input link ends up extracted or with a failure recorded on its
  record, none is dropped without an outcome. This fails for a link without a URL: the
  loop skips it, so the call leaves its record as it was, with neither
  \<open>sample_extracted\<close> nor \<open>extraction_status\<close>, and does not return it.
\<close>

theorem C3_no_url_counterexample:
  "extract_voice_samples default_extractor env_idle [link_no_url] state0
     = Inr ([link_no_url], [], state0\<lparr>n_time := 1\<rparr>)
   \<and> entries link_no_url ''sample_extracted'' = None
   \<and> entries link_no_url ''extraction_status'' = None"
  by (simp add: extract_voice_samples_def eval_defs Let_def)

text \<open>
  C3, amended: take a list of links in which the platform type of every link with a
  URL is a string or a value that is false (\<open>None\<close>, the empty string). Then the call
  returns, having gone through every link of the list, whatever happened to the earlier
  ones. A link with a non-empty URL ends up in exactly one of two outcomes, both
  written onto its record with an \<open>extraction_status\<close>: \<open>sample_extracted\<close> is \<open>True\<close>
  and the record is in the returned list, or \<open>sample_extracted\<close> is \<open>False\<close> and it is
  not. A link whose URL is empty or \<open>None\<close> is skipped: its record is left unchanged and
  is not returned.
\<close>

theorem C3_every_link_with_url_has_outcome:
  assumes "\<forall>ld\<in>set links. str_truthy (link_url ld) \<longrightarrow> lowers (platform_type ld)"
    and "i < length links"
  shows "\<exists>links' extracted st'.
     extract_voice_samples ex e links st = Inr (links', extracted, st')
     \<and> length links' = length links
     \<and> (str_truthy (link_url (links ! i)) \<longrightarrow>
          (\<exists>s. entries (links' ! i) ''extraction_status'' = Some (PStr s))
          \<and> (entries (links' ! i) ''sample_extracted'' = Some (PBool True)
                \<and> links' ! i \<in> set extracted
              \<or> entries (links' ! i) ''sample_extracted'' = Some (PBool False)
                \<and> links' ! i \<notin> set extracted))
     \<and> (\<not> str_truthy (link_url (links ! i)) \<longrightarrow>
          links' ! i = links ! i \<and> links' ! i \<notin> set extracted)"
proof -
  from process_links_returns[OF assms(1), of ex e st]
  obtain links' extracted st' where
    r: "extract_voice_samples ex e links st = Inr (links', extracted, st')"
    by (auto simp: voice_samples_are_process_links)
  note f = voice_samples_facts[OF r]
  from f(3)[OF assms(2)] obtain sti ok stj where
    l: "process_link ex e (links ! i) sti = Inr (links' ! i, ok, stj)" by blast
  have mem: "links' ! i \<in> set links'" using f(1) assms(2) by simp
  have ext: "links' ! i \<in> set extracted \<longleftrightarrow> marked_extracted (links' ! i)"
    using f(2) mem by simp
  have "(str_truthy (link_url (links ! i)) \<longrightarrow>
          (\<exists>s. entries (links' ! i) ''extraction_status'' = Some (PStr s))
          \<and> (entries (links' ! i) ''sample_extracted'' = Some (PBool True)
                \<and> links' ! i \<in> set extracted
              \<or> entries (links' ! i) ''sample_extracted'' = Some (PBool False)
                \<and> links' ! i \<notin> set extracted))
     \<and> (\<not> str_truthy (link_url (links ! i)) \<longrightarrow>
          links' ! i = links ! i \<and> links' ! i \<notin> set extracted)"
  proof (cases "str_truthy (link_url (links ! i))")
    case True
    note p = process_link_processed[OF True l]
    from p(1) p(2) p(4) True ext show ?thesis
      by (cases ok) (auto simp: marked_extracted_def)
  next
    case False
    from process_link_skipped[OF False, of ex e sti] l ext False
    show ?thesis by (auto simp: marked_extracted_def)
  qed
  with r f(1) show ?thesis by blast
qed

theorem C3_batch_witness:
  "extract_voice_samples default_extractor env_batch [link_creator, link_vimeo, link_no_url] state0
     = Inr ([creator_done, vimeo_done, link_no_url], [creator_done],
            state_after_vimeo\<lparr>n_time := 3\<rparr>)
   \<and> entries vimeo_done ''sample_extracted'' = Some (PBool False)
   \<and> entries vimeo_done ''extraction_status'' = Some (PStr ''unsupported_platform: vimeo'')
   \<and> vimeo_done \<notin> set [creator_done]"
  using C3_every_link_with_url_has_outcome
          [OF batch_platforms_lower, of 1 default_extractor env_batch state0]
    run_batch
  by (simp add: vimeo_done_def creator_done_def update_link_def link_vimeo_def
        failure_result_def str_truthy_def)

subsection \<open>The quality written onto a record\<close>



subsection \<open>The list returned\<close>

text \<open>
  C10. For an empty list the call returns the empty list and starts no process, reads
  no clock and does not sleep. Otherwise, when the call returns, every record it leaves
  is what one round of the loop makes of the input record at the same position, and the
  list returned is, in the order of the input, exactly the records whose round ended
  with a successful extraction: those with a URL and \<open>sample_extracted = True\<close>. Records
  whose extraction failed, with the failure written onto them, and skipped records are
  not returned. The call returns unless the list holds a record with a URL whose
  platform type is true and not a string.
\<close>

theorem C10_returns_extracted_in_order:
  "extract_voice_samples ex e [] st = Inr ([], [], st)
   \<and> (case extract_voice_samples ex e links st of
        Inl exn \<Rightarrow>
          \<exists>ld\<in>set links. str_truthy (link_url ld) \<and> \<not> lowers (platform_type ld)
      | Inr (links', extracted, st') \<Rightarrow>
          extracted = filter marked_extracted links'
          \<and> list_all2
               (\<lambda>ld ld'. \<exists>sti stj.
                   process_link ex e ld sti = Inr (ld', marked_extracted ld', stj))
               links links')"
proof (cases "extract_voice_samples ex e links st")
  case (Inl exn)
  then have "process_links ex e links st = Inl exn"
    by (simp add: voice_samples_are_process_links)
  from process_links_raises[OF this] Inl show ?thesis
    by (simp add: extract_voice_samples_def)
next
  case (Inr r)
  obtain links' extracted st' where r: "r = (links', extracted, st')" by (cases r)
  with Inr have p: "process_links ex e links st = Inr (links', extracted, st')"
    by (simp add: voice_samples_are_process_links)
  from process_links_rel[OF p]
  have la: "list_all2 (\<lambda>ld ld'. \<exists>sti ok stj. process_link ex e ld sti = Inr (ld', ok, stj))
              links links'"
    and e: "extracted = filter marked_extracted links'" by auto
  from la have "list_all2
               (\<lambda>ld ld'. \<exists>sti stj.
                   process_link ex e ld sti = Inr (ld', marked_extracted ld', stj))
               links links'"
    by (rule list_all2_mono) (use process_link_appended in blast)
  with e Inr r show ?thesis by (simp add: extract_voice_samples_def)
qed

theorem C10_batch_witness:
  "extract_voice_samples default_extractor env_batch [link_creator, link_vimeo, link_no_url] state0
     = Inr ([creator_done, vimeo_done, link_no_url], [creator_done],
            state_after_vimeo\<lparr>n_time := 3\<rparr>)
   \<and> filter marked_extracted [creator_done, vimeo_done, link_no_url] = [creator_done]
   \<and> extract_voice_samples default_extractor env_batch [] state0 = Inr ([], [], state0)"
  using C10_returns_extracted_in_order
    [of default_extractor env_batch state0 "[link_creator, link_vimeo, link_no_url]"]
    run_batch
  by simp

end
